theory Spec2Isabelle
  imports Main
begin

section \<open>Data: labels, rows, frames\<close>

text \<open>
  A pandas \<^verbatim>\<open>Timestamp\<close> is modelled by the number of seconds since the epoch, so that
  \<^verbatim>\<open>timedelta(days=1)\<close> is 86400 of them.  A daily bar carries the midnight of its
  calendar day.
\<close>

type_synonym timestamp = int

definition timedelta_days :: "int \<Rightarrow> int" where
  "timedelta_days n = n * 86400"

text \<open>
  An index label is what pandas holds in the index of a frame.  \<^verbatim>\<open>pd.read_csv(path,
  index_col=0)\<close> without \<^verbatim>\<open>parse_dates\<close> infers the type of the first column: it
  keeps a label as the text of the file (\<open>Str\<close>) or reads a value of another type from
  it (\<open>Val\<close>: a number where the whole column is numeric, a missing value for an empty
  text); the type \<open>'n\<close> of these values is left open.  The provider yields a
  \<^verbatim>\<open>DatetimeIndex\<close> (\<open>Ts\<close>).  In an index of mixed labels pandas compares the objects
  themselves, and neither a string nor a number ever equals a \<^verbatim>\<open>Timestamp\<close>: the
  constructors are distinct.  Line 77 of the source converts the last label with
  \<^verbatim>\<open>pd.to_datetime\<close> before adding a day to it; \<^verbatim>\<open>get_local_data\<close> reads the same
  file with \<^verbatim>\<open>parse_dates=True\<close>.
\<close>

datatype 'n label = Str string | Val 'n | Ts timestamp

text \<open>
  A row is the list of its cells, each under the name of its column; a frame is the list
  of its rows in order, each with its index label.  The cell values are never computed
  with and stay polymorphic.
\<close>

type_synonym 'v row = "(string \<times> 'v) list"

type_synonym ('l, 'v) frame = "('l \<times> 'v row) list"

section \<open>Errors, effects and the outside world\<close>

text \<open>\<open>PyException msg\<close> is any exception derived from \<^verbatim>\<open>Exception\<close> raised inside a
  provider call, with \<^verbatim>\<open>str(e) = msg\<close>.  \<open>error\<close> lists the exceptions the
  warehouse itself can let escape.\<close>

datatype py_exception = PyException string

datatype error =
    FileExistsError
  | IsADirectoryError
  | FileNotFoundError
  | IndexError
  | ValueError
  | NameError

datatype request =
    Download string "timestamp option" string
  | History string string

text \<open>
  The state threaded through every method: the directories and the CSV files of the file
  system (a file is the table that \<^verbatim>\<open>read_csv\<close> would parse from it: index text and
  cells per row), the lines printed so far, the provider calls made so far, the paths
  written by \<^verbatim>\<open>to_csv\<close> so far, and the state of the provider's side (\<open>world\<close>).
  Directories are tracked by their full path only.
\<close>

record ('v, 'w) state =
  dirs :: "string set"
  files :: "string \<rightharpoonup> (string, 'v) frame"
  out :: "string list"
  requests :: "request list"
  writes :: "string list"
  world :: 'w

text \<open>
  What the code takes from pandas, yfinance and the clock, and what the source does not
  define, is a parameter:
  \<^item> \<open>read_index\<close>: the value \<^verbatim>\<open>read_csv\<close> reads from a text of the index column
    where it does not keep the text (\<open>None\<close>: the label is the text); it looks at the
    whole column;
  \<^item> \<open>to_datetime\<close>: \<^verbatim>\<open>pd.to_datetime\<close> on one string (\<open>None\<close>: it raises);
  \<^item> \<open>to_datetime_value\<close>: \<^verbatim>\<open>pd.to_datetime\<close> on one such value (a number counts
    from the epoch);
  \<^item> \<open>str_value\<close>: the text \<^verbatim>\<open>to_csv\<close> writes for one such value;
  \<^item> \<open>to_datetime_index\<close>: \<^verbatim>\<open>pd.to_datetime\<close> on a whole index of strings, which
    settles on a format for the index and reads every label with it;
  \<^item> \<open>csv_datetime_index\<close>: the text \<^verbatim>\<open>to_csv\<close> writes for a label of a
    \<^verbatim>\<open>DatetimeIndex\<close> (the format depends on the whole index);
  \<^item> \<open>str_timestamp\<close>: the text \<^verbatim>\<open>to_csv\<close> writes for a \<^verbatim>\<open>Timestamp\<close> held
    in an index of mixed objects;
  \<^item> \<open>today\<close>: \<^verbatim>\<open>datetime.today().strftime('%Y-%m-%d')\<close>;
  \<^item> \<open>yf_download\<close>: \<^verbatim>\<open>yf.download(symbol, start, end, progress=False,
    auto_adjust=True)\<close>, which raises or returns a frame, and moves the world on;
  \<^item> \<open>ticker_history\<close>: \<^verbatim>\<open>yf.Ticker(symbol).history(period, interval='1m',
    prepost=True)\<close>, likewise.
\<close>

record ('n, 'v, 'w) ext =
  read_index :: "string list \<Rightarrow> string \<Rightarrow> 'n option"
  to_datetime :: "string \<Rightarrow> timestamp option"
  to_datetime_value :: "'n \<Rightarrow> timestamp option"
  str_value :: "'n \<Rightarrow> string"
  to_datetime_index :: "string list \<Rightarrow> string \<Rightarrow> timestamp option"
  csv_datetime_index :: "timestamp list \<Rightarrow> timestamp \<Rightarrow> string"
  str_timestamp :: "timestamp \<Rightarrow> string"
  today :: "'w \<Rightarrow> string"
  yf_download :: "string \<Rightarrow> timestamp option \<Rightarrow> string \<Rightarrow> 'w
    \<Rightarrow> (py_exception + (timestamp, 'v) frame) \<times> 'w"
  ticker_history :: "string \<Rightarrow> string \<Rightarrow> 'w
    \<Rightarrow> (py_exception + (timestamp, 'v) frame) \<times> 'w"

record warehouse =
  root_dir :: string

definition print :: "string \<Rightarrow> ('v, 'w) state \<Rightarrow> ('v, 'w) state" where
  "print msg st = st\<lparr>out := out st @ [msg]\<rparr>"

section \<open>The operating system\<close>

text \<open>\<^verbatim>\<open>os.path.join(a, b)\<close> of posixpath.\<close>

definition os_path_join :: "string \<Rightarrow> string \<Rightarrow> string" where
  "os_path_join a b =
     (if take 1 b = ''/'' then b
      else if a = [] then a @ b
      else if last a = CHR ''/'' then a @ b
      else a @ ''/'' @ b)"

definition os_path_exists :: "('v, 'w) state \<Rightarrow> string \<Rightarrow> bool" where
  "os_path_exists st p = (if p \<in> dirs st then True else p \<in> dom (files st))"

text \<open>\<^verbatim>\<open>os.makedirs(name, exist_ok=True)\<close>: a directory that exists is left alone; a file
  in its place is an error.  Only the path itself is looked at: the parents of a path are
  not part of this state, so the intermediate directories that the call creates and its
  errors for an empty name or for a file in the place of a parent do not appear.\<close>

definition os_makedirs :: "string \<Rightarrow> ('v, 'w) state \<Rightarrow> (error + unit) \<times> ('v, 'w) state" where
  "os_makedirs name st =
     (if name \<in> dom (files st) then (Inl FileExistsError, st)
      else (Inr (), st\<lparr>dirs := insert name (dirs st)\<rparr>))"

section \<open>pandas\<close>

text \<open>Opening a CSV file and splitting it into index text and cells.\<close>

definition read_table :: "('v, 'w) state \<Rightarrow> string \<Rightarrow> error + (string, 'v) frame" where
  "read_table st path =
     (if path \<in> dirs st then Inl IsADirectoryError
      else case files st path of
             None \<Rightarrow> Inl FileNotFoundError
           | Some table \<Rightarrow> Inr table)"

text \<open>The label \<^verbatim>\<open>read_csv\<close> holds for a text of an index column \<open>idx\<close>.\<close>

definition index_label :: "('n, 'v, 'w) ext \<Rightarrow> string list \<Rightarrow> string \<Rightarrow> 'n label" where
  "index_label x idx s = (case read_index x idx s of None \<Rightarrow> Str s | Some v \<Rightarrow> Val v)"

text \<open>\<^verbatim>\<open>pd.read_csv(path, index_col=0)\<close>: the index is the first column, its type
  inferred.\<close>

definition read_csv ::
  "('n, 'v, 'w) ext \<Rightarrow> ('v, 'w) state \<Rightarrow> string \<Rightarrow> error + ('n label, 'v) frame" where
  "read_csv x st path =
     (case read_table st path of
        Inl e \<Rightarrow> Inl e
      | Inr table \<Rightarrow> Inr (map (\<lambda>(s, r). (index_label x (map fst table) s, r)) table))"

text \<open>\<^verbatim>\<open>pd.read_csv(path, index_col=0, parse_dates=True)\<close> followed by
  \<^verbatim>\<open>df.index = pd.to_datetime(df.index)\<close>, which raises on an index it cannot read.\<close>

definition read_csv_dates ::
  "('n, 'v, 'w) ext \<Rightarrow> ('v, 'w) state \<Rightarrow> string \<Rightarrow> error + (timestamp, 'v) frame" where
  "read_csv_dates x st path =
     (case read_table st path of
        Inl e \<Rightarrow> Inl e
      | Inr table \<Rightarrow>
          (case those (map (to_datetime_index x (map fst table)) (map fst table)) of
             None \<Rightarrow> Inl ValueError
           | Some ts \<Rightarrow> Inr (zip ts (map snd table))))"

text \<open>\<^verbatim>\<open>df.index[-1]\<close>\<close>

definition index_last :: "('l, 'v) frame \<Rightarrow> error + 'l" where
  "index_last df = (if df = [] then Inl IndexError else Inr (fst (last df)))"

text \<open>\<^verbatim>\<open>pd.to_datetime(label)\<close> on one label\<close>

definition pd_to_datetime :: "('n, 'v, 'w) ext \<Rightarrow> 'n label \<Rightarrow> error + timestamp" where
  "pd_to_datetime x l =
     (case l of
        Ts t \<Rightarrow> Inr t
      | Str s \<Rightarrow> (case to_datetime x s of None \<Rightarrow> Inl ValueError | Some t \<Rightarrow> Inr t)
      | Val v \<Rightarrow> (case to_datetime_value x v of None \<Rightarrow> Inl ValueError | Some t \<Rightarrow> Inr t))"

text \<open>\<^verbatim>\<open>df.rename(columns={'Open': 'open', ...})\<close>\<close>

definition column_names :: "(string \<times> string) list" where
  "column_names =
     [(''Open'', ''open''), (''High'', ''high''), (''Low'', ''low''),
      (''Close'', ''close''), (''Volume'', ''volume'')]"

definition rename_columns :: "('l, 'v) frame \<Rightarrow> ('l, 'v) frame" where
  "rename_columns df =
     map (\<lambda>(l, r). (l, map (\<lambda>(c, v). (case map_of column_names c of None \<Rightarrow> c | Some c' \<Rightarrow> c', v)) r)) df"

text \<open>\<^verbatim>\<open>df.empty\<close>: no rows, or no columns.\<close>

definition df_empty :: "('l, 'v) frame \<Rightarrow> bool" where
  "df_empty df = (if df = [] then True else list_all (\<lambda>(l, r). r = []) df)"

text \<open>\<^verbatim>\<open>index.duplicated(keep='last')\<close>: a label is a duplicate when it occurs again
  further down.\<close>

fun duplicated_last :: "'l list \<Rightarrow> bool list" where
  "duplicated_last [] = []"
| "duplicated_last (l # ls) = (l \<in> set ls) # duplicated_last ls"

text \<open>\<^verbatim>\<open>df[keep]\<close> for a boolean array: the rows where it holds, in order.\<close>

definition frame_where :: "('l, 'v) frame \<Rightarrow> bool list \<Rightarrow> ('l, 'v) frame" where
  "frame_where df keep = map fst (filter snd (zip df keep))"

text \<open>\<^verbatim>\<open>df[~df.index.duplicated(keep='last')]\<close>\<close>

definition drop_duplicated :: "('l, 'v) frame \<Rightarrow> ('l, 'v) frame" where
  "drop_duplicated df = frame_where df (map Not (duplicated_last (map fst df)))"

text \<open>The index column that \<^verbatim>\<open>to_csv\<close> writes: a frame whose labels are all
  \<^verbatim>\<open>Timestamp\<close>s has a \<^verbatim>\<open>DatetimeIndex\<close>; any other index is written label by
  label.\<close>

fun is_Ts :: "'n label \<Rightarrow> bool" where
  "is_Ts (Ts t) = True"
| "is_Ts (Str s) = False"
| "is_Ts (Val v) = False"

fun stamps :: "'n label list \<Rightarrow> timestamp list" where
  "stamps [] = []"
| "stamps (Ts t # ls) = t # stamps ls"
| "stamps (Str s # ls) = stamps ls"
| "stamps (Val v # ls) = stamps ls"

definition csv_label :: "('n, 'v, 'w) ext \<Rightarrow> 'n label list \<Rightarrow> 'n label \<Rightarrow> string" where
  "csv_label x idx l =
     (case l of
        Str s \<Rightarrow> s
      | Val v \<Rightarrow> str_value x v
      | Ts t \<Rightarrow> if list_all is_Ts idx then csv_datetime_index x (stamps idx) t
                else str_timestamp x t)"

definition to_csv ::
  "('n, 'v, 'w) ext \<Rightarrow> ('n label, 'v) frame \<Rightarrow> string \<Rightarrow> ('v, 'w) state \<Rightarrow> (error + unit) \<times> ('v, 'w) state" where
  "to_csv x df path st =
     (if path \<in> dirs st then (Inl IsADirectoryError, st)
      else (Inr (),
            st\<lparr>files := (files st)(path \<mapsto> map (\<lambda>(l, r). (csv_label x (map fst df) l, r)) df),
               writes := writes st @ [path]\<rparr>))"

text \<open>\<^verbatim>\<open>len(df)\<close> inside an f-string: the decimal numeral.\<close>

fun str_nat :: "nat \<Rightarrow> string" where
  "str_nat n =
     (if n < 10 then [''0123456789'' ! n]
      else str_nat (n div 10) @ [''0123456789'' ! (n mod 10)])"

declare str_nat.simps [simp del]

section \<open>The warehouse\<close>

text \<open>\<^verbatim>\<open>__init__\<close>\<close>

definition init :: "string \<Rightarrow> ('v, 'w) state \<Rightarrow> (error + warehouse) \<times> ('v, 'w) state" where
  "init root st =
     (case os_makedirs root st of
        (Inl e, st') \<Rightarrow> (Inl e, st')
      | (Inr u, st') \<Rightarrow> (Inr \<lparr>root_dir = root\<rparr>, st'))"

text \<open>\<^verbatim>\<open>_get_symbol_path\<close>\<close>

definition get_symbol_path ::
  "warehouse \<Rightarrow> string \<Rightarrow> string \<Rightarrow> ('v, 'w) state \<Rightarrow> (error + string) \<times> ('v, 'w) state" where
  "get_symbol_path self symbol market st =
     (let market_dir = os_path_join (root_dir self) market in
      case os_makedirs market_dir st of
        (Inl e, st') \<Rightarrow> (Inl e, st')
      | (Inr u, st') \<Rightarrow> (Inr (os_path_join market_dir (symbol @ ''.csv'')), st'))"

text \<open>The provider's ticker: \<^verbatim>\<open>f"{symbol}.{market}" if market == "HK" else symbol\<close>\<close>

definition full_symbol :: "string \<Rightarrow> string \<Rightarrow> string" where
  "full_symbol symbol market = (if market = ''HK'' then symbol @ ''.'' @ market else symbol)"

text \<open>\<^verbatim>\<open>_download_historical_data\<close>: the provider call and the renaming stand inside
  \<^verbatim>\<open>try\<close>; \<^verbatim>\<open>except Exception\<close> prints and returns \<^verbatim>\<open>None\<close>.\<close>

definition download_historical_data ::
  "('n, 'v, 'w) ext \<Rightarrow> string \<Rightarrow> timestamp option \<Rightarrow> string \<Rightarrow> ('v, 'w) state
    \<Rightarrow> (error + ('n label, 'v) frame option) \<times> ('v, 'w) state" where
  "download_historical_data x symbol start end st =
     (let st1 = st\<lparr>requests := requests st @ [Download symbol start end]\<rparr>;
          (res, w) = yf_download x symbol start end (world st1);
          st2 = st1\<lparr>world := w\<rparr>
      in case res of
           Inr df \<Rightarrow> (Inr (Some (rename_columns (map (\<lambda>(t, r). (Ts t, r)) df))), st2)
         | Inl (PyException msg) \<Rightarrow>
             (Inr None, print (''Error downloading '' @ symbol @ '': '' @ msg) st2))"

text \<open>Lines 75 to 80 of \<^verbatim>\<open>update_historical_data\<close>: the stored frame, if a file is
  there, and the start of the fetch.\<close>

definition load_existing ::
  "('n, 'v, 'w) ext \<Rightarrow> ('v, 'w) state \<Rightarrow> string \<Rightarrow> error + (('n label, 'v) frame option \<times> timestamp option)" where
  "load_existing x st file_path =
     (if os_path_exists st file_path then
        (case read_csv x st file_path of
           Inl e \<Rightarrow> Inl e
         | Inr existing_df \<Rightarrow>
             (case index_last existing_df of
                Inl e \<Rightarrow> Inl e
              | Inr l \<Rightarrow>
                  (case pd_to_datetime x l of
                     Inl e \<Rightarrow> Inl e
                   | Inr last_date \<Rightarrow>
                       Inr (Some existing_df, Some (last_date + timedelta_days 1)))))
      else Inr (None, None))"

text \<open>Lines 89 to 101 of \<^verbatim>\<open>update_historical_data\<close>: merge, drop the duplicated
  labels, save, report.  \<open>existing_df\<close> is \<open>None\<close> when the variable was never bound.
  \<^verbatim>\<open>pd.concat([existing_df, new_data])\<close> is the rows of the first frame followed by the
  rows of the second, with the index labels as they are; every row keeps the cells it
  came with, and what pandas does to the cells when the columns of the two frames
  differ (missing values, a common type per column) is left out.\<close>

definition merge_and_save ::
  "('n, 'v, 'w) ext \<Rightarrow> string \<Rightarrow> string \<Rightarrow> ('n label, 'v) frame option \<Rightarrow> ('n label, 'v) frame option
    \<Rightarrow> ('v, 'w) state \<Rightarrow> (error + unit) \<times> ('v, 'w) state" where
  "merge_and_save x symbol file_path existing_df new_data st =
     (case new_data of
        None \<Rightarrow> (Inr (), print (''No new data for '' @ symbol) st)
      | Some nd \<Rightarrow>
          if df_empty nd then (Inr (), print (''No new data for '' @ symbol) st)
          else
            (case (if os_path_exists st file_path
                   then (case existing_df of None \<Rightarrow> Inl NameError | Some ex \<Rightarrow> Inr (ex @ nd))
                   else Inr nd) of
               Inl e \<Rightarrow> (Inl e, st)
             | Inr updated_df \<Rightarrow>
                 (case to_csv x (drop_duplicated updated_df) file_path st of
                    (Inl e, st') \<Rightarrow> (Inl e, st')
                  | (Inr u, st') \<Rightarrow>
                      (Inr (),
                       print (''Updated '' @ symbol @ '' with '' @ str_nat (length nd) @ '' new records'') st'))))"

text \<open>Lines 71 to 87 of \<^verbatim>\<open>update_historical_data\<close>: the path, the stored frame and
  the fetch from the day after the last stored label up to today.\<close>

definition fetch_new ::
  "('n, 'v, 'w) ext \<Rightarrow> warehouse \<Rightarrow> string \<Rightarrow> string \<Rightarrow> ('v, 'w) state
    \<Rightarrow> (error + (string \<times> ('n label, 'v) frame option \<times> ('n label, 'v) frame option)) \<times> ('v, 'w) state" where
  "fetch_new x self symbol market st =
     (case get_symbol_path self symbol market st of
        (Inl e, st1) \<Rightarrow> (Inl e, st1)
      | (Inr file_path, st1) \<Rightarrow>
          (case load_existing x st1 file_path of
             Inl e \<Rightarrow> (Inl e, st1)
           | Inr (existing_df, start_date) \<Rightarrow>
               (case download_historical_data x (full_symbol symbol market) start_date
                       (today x (world st1)) st1 of
                  (Inl e, st2) \<Rightarrow> (Inl e, st2)
                | (Inr new_data, st2) \<Rightarrow> (Inr (file_path, existing_df, new_data), st2))))"

text \<open>\<^verbatim>\<open>update_historical_data\<close>\<close>

definition update_historical_data ::
  "('n, 'v, 'w) ext \<Rightarrow> warehouse \<Rightarrow> string \<Rightarrow> string \<Rightarrow> ('v, 'w) state
    \<Rightarrow> (error + unit) \<times> ('v, 'w) state" where
  "update_historical_data x self symbol market st =
     (case fetch_new x self symbol market st of
        (Inl e, st2) \<Rightarrow> (Inl e, st2)
      | (Inr (file_path, existing_df, new_data), st2) \<Rightarrow>
          merge_and_save x symbol file_path existing_df new_data st2)"

text \<open>\<^verbatim>\<open>get_realtime_data\<close>\<close>

definition get_realtime_data ::
  "('n, 'v, 'w) ext \<Rightarrow> warehouse \<Rightarrow> string \<Rightarrow> string \<Rightarrow> string \<Rightarrow> ('v, 'w) state
    \<Rightarrow> (error + (timestamp, 'v) frame option) \<times> ('v, 'w) state" where
  "get_realtime_data x self symbol market period st =
     (let ticker = full_symbol symbol market;
          st1 = st\<lparr>requests := requests st @ [History ticker period]\<rparr>;
          (res, w) = ticker_history x ticker period (world st1);
          st2 = st1\<lparr>world := w\<rparr>
      in case res of
           Inr df \<Rightarrow> (Inr (Some df), st2)
         | Inl (PyException msg) \<Rightarrow>
             (Inr None, print (''Error fetching realtime data: '' @ msg) st2))"

text \<open>\<^verbatim>\<open>get_local_data\<close>\<close>

definition get_local_data ::
  "('n, 'v, 'w) ext \<Rightarrow> warehouse \<Rightarrow> string \<Rightarrow> string \<Rightarrow> ('v, 'w) state
    \<Rightarrow> (error + (timestamp, 'v) frame option) \<times> ('v, 'w) state" where
  "get_local_data x self symbol market st =
     (case get_symbol_path self symbol market st of
        (Inl e, st1) \<Rightarrow> (Inl e, st1)
      | (Inr file_path, st1) \<Rightarrow>
          if os_path_exists st1 file_path then
            (case read_csv_dates x st1 file_path of
               Inl e \<Rightarrow> (Inl e, st1)
             | Inr df \<Rightarrow> (Inr (Some df), st1))
          else
            (Inr None, print (''No local data found for '' @ symbol @ '' in '' @ market) st1))"

text \<open>\<^verbatim>\<open>batch_update\<close>: the \<^verbatim>\<open>for\<close> loop over \<^verbatim>\<open>zip(symbol_list, markets)\<close>; an
  exception that escapes one update ends the loop.\<close>

fun batch_loop ::
  "('n, 'v, 'w) ext \<Rightarrow> warehouse \<Rightarrow> (string \<times> string) list \<Rightarrow> ('v, 'w) state
    \<Rightarrow> (error + unit) \<times> ('v, 'w) state" where
  "batch_loop x self [] st = (Inr (), st)"
| "batch_loop x self ((symbol, market) # ps) st =
     (case update_historical_data x self symbol market st of
        (Inl e, st') \<Rightarrow> (Inl e, st')
      | (Inr u, st') \<Rightarrow> batch_loop x self ps st')"

definition batch_update ::
  "('n, 'v, 'w) ext \<Rightarrow> warehouse \<Rightarrow> string list \<Rightarrow> string list \<Rightarrow> ('v, 'w) state
    \<Rightarrow> (error + unit) \<times> ('v, 'w) state" where
  "batch_update x self symbol_list markets st = batch_loop x self (zip symbol_list markets) st"

section \<open>Properties of a run\<close>

text \<open>The fetch of an update brought nothing: the update stopped before the fetch, the
  fetch came back absent, or it came back empty.\<close>

definition no_new_data ::
  "error + (string \<times> ('n label, 'v) frame option \<times> ('n label, 'v) frame option) \<Rightarrow> bool" where
  "no_new_data r =
     (case r of
        Inl e \<Rightarrow> True
      | Inr (file_path, existing_df, new_data) \<Rightarrow>
          (case new_data of None \<Rightarrow> True | Some df \<Rightarrow> df_empty df))"

text \<open>
  The date of a label: a \<^verbatim>\<open>Timestamp\<close> is its own date; any other label has the date
  that \<^verbatim>\<open>pd.to_datetime\<close> reads from the text that stands for it in the file.  The
  dates of a frame and of a stored table, row by row; \<open>ascending\<close>: every date is there
  and none is earlier than the one before it.
\<close>

definition label_date :: "('n, 'v, 'w) ext \<Rightarrow> 'n label \<Rightarrow> timestamp option" where
  "label_date x l =
     (case l of
        Str s \<Rightarrow> to_datetime x s
      | Val v \<Rightarrow> to_datetime x (str_value x v)
      | Ts t \<Rightarrow> Some t)"

definition frame_dates :: "('n, 'v, 'w) ext \<Rightarrow> ('n label, 'v) frame \<Rightarrow> timestamp option list" where
  "frame_dates x df = map (label_date x) (map fst df)"

definition csv_dates :: "('n, 'v, 'w) ext \<Rightarrow> (string, 'v) frame \<Rightarrow> timestamp option list" where
  "csv_dates x table = map (to_datetime x) (map fst table)"

definition ascending :: "timestamp option list \<Rightarrow> bool" where
  "ascending ds = (list_all (\<lambda>d. d \<noteq> None) ds \<and> sorted (map the ds))"

definition sorted_by_date :: "('n, 'v, 'w) ext \<Rightarrow> (string, 'v) frame \<Rightarrow> bool" where
  "sorted_by_date x table = ascending (csv_dates x table)"

definition reads_back :: "('n, 'v, 'w) ext \<Rightarrow> timestamp \<Rightarrow> bool" where
  "reads_back x t =
     (to_datetime x (str_timestamp x t) = Some t
      \<and> (\<forall>idx. to_datetime x (csv_datetime_index x idx t) = Some t))"

text \<open>
  Position \<open>i\<close> of a batch, after what came before it: nothing more once an exception has
  escaped, else the update of the \<open>i\<close>-th symbol with the \<open>i\<close>-th market.
\<close>

definition update_at ::
  "('n, 'v, 'w) ext \<Rightarrow> warehouse \<Rightarrow> string list \<Rightarrow> string list \<Rightarrow> nat
    \<Rightarrow> (error + unit) \<times> ('v, 'w) state \<Rightarrow> (error + unit) \<times> ('v, 'w) state" where
  "update_at x self symbol_list markets i acc =
     (case acc of
        (Inl e, st) \<Rightarrow> (Inl e, st)
      | (Inr u, st) \<Rightarrow> update_historical_data x self (symbol_list ! i) (markets ! i) st)"

section \<open>A scripted provider for concrete runs\<close>

text \<open>
  A week of calendar days with their midnights in seconds since the epoch.  Read alone, a
  text is taken as the date or as the date with its time of day; a whole index is read
  in the format of its first label only.  An index column of decimal numerals only is
  read as numbers, and a number is converted as nanoseconds since the epoch.  The
  provider answers each call with the next entry of a script (the world), and with an
  empty frame once the script is used up.
\<close>

definition iso_days :: "(string \<times> timestamp) list" where
  "iso_days =
     [(''2024-01-01'', 1704067200), (''2024-01-02'', 1704153600), (''2024-01-03'', 1704240000),
      (''2024-01-04'', 1704326400), (''2024-01-05'', 1704412800), (''2024-01-06'', 1704499200),
      (''2024-01-07'', 1704585600)]"

definition iso_of :: "timestamp \<Rightarrow> string" where
  "iso_of t = (case map_of (map (\<lambda>(s, t). (t, s)) iso_days) t of None \<Rightarrow> ''NaT'' | Some s \<Rightarrow> s)"

definition of_iso :: "string \<Rightarrow> timestamp option" where
  "of_iso = map_of (iso_days @ map (\<lambda>(s, t). (s @ '' 00:00:00'', t)) iso_days)"

definition of_iso_like :: "string list \<Rightarrow> string \<Rightarrow> timestamp option" where
  "of_iso_like idx =
     (case idx of
        [] \<Rightarrow> (\<lambda>s. None)
      | s0 # rest \<Rightarrow>
          if length s0 = 10 then map_of iso_days
          else map_of (map (\<lambda>(s, t). (s @ '' 00:00:00'', t)) iso_days))"

definition numeral_text :: "string \<Rightarrow> bool" where
  "numeral_text s = (if s = [] then False else list_all (\<lambda>c. c \<in> set ''0123456789'') s)"

definition digit_value :: "char \<Rightarrow> int" where
  "digit_value c =
     (case map_of [(CHR ''0'', 0), (CHR ''1'', 1), (CHR ''2'', 2), (CHR ''3'', 3), (CHR ''4'', 4),
                   (CHR ''5'', 5), (CHR ''6'', 6), (CHR ''7'', 7), (CHR ''8'', 8), (CHR ''9'', 9)] c of
        None \<Rightarrow> 0
      | Some d \<Rightarrow> d)"

definition int_of_text :: "string \<Rightarrow> int" where
  "int_of_text s = foldl (\<lambda>n c. 10 * n + digit_value c) 0 s"

definition numeric_index :: "string list \<Rightarrow> string \<Rightarrow> int option" where
  "numeric_index idx s = (if list_all numeral_text idx then Some (int_of_text s) else None)"

type_synonym script = "(py_exception + (timestamp, int) frame) list"

definition scripted :: "script \<Rightarrow> (py_exception + (timestamp, int) frame) \<times> script" where
  "scripted w = (case w of [] \<Rightarrow> (Inr [], []) | r # rs \<Rightarrow> (r, rs))"

definition demo_ext :: "(int, int, script) ext" where
  "demo_ext =
     \<lparr>read_index = numeric_index,
      to_datetime = of_iso,
      to_datetime_value = (\<lambda>v. Some (v div 1000000000)),
      str_value = (\<lambda>v. str_nat (nat v)),
      to_datetime_index = of_iso_like,
      csv_datetime_index = (\<lambda>idx. iso_of),
      str_timestamp = (\<lambda>t. iso_of t @ '' 00:00:00''),
      today = (\<lambda>w. ''2024-01-08''),
      yf_download = (\<lambda>symbol start end. scripted),
      ticker_history = (\<lambda>symbol period. scripted)\<rparr>"

definition demo_self :: warehouse where
  "demo_self = \<lparr>root_dir = ''stock_data''\<rparr>"

definition demo_state :: "string set \<Rightarrow> (string \<times> (string, int) frame) list \<Rightarrow> script \<Rightarrow> (int, script) state" where
  "demo_state ds fs script =
     \<lparr>dirs = ds, files = map_of fs, out = [], requests = [], writes = [], world = script\<rparr>"

lemmas model_defs =
  update_historical_data_def fetch_new_def get_symbol_path_def os_path_join_def os_makedirs_def
  load_existing_def os_path_exists_def read_csv_def index_label_def read_table_def read_csv_dates_def
  index_last_def pd_to_datetime_def timedelta_days_def
  download_historical_data_def get_realtime_data_def get_local_data_def
  full_symbol_def rename_columns_def column_names_def merge_and_save_def
  df_empty_def drop_duplicated_def frame_where_def to_csv_def csv_label_def print_def
  batch_update_def

lemmas demo_defs =
  demo_state_def demo_self_def demo_ext_def scripted_def of_iso_def iso_of_def iso_days_def
  of_iso_like_def numeral_text_def digit_value_def int_of_text_def numeric_index_def

section \<open>What each step changes\<close>

lemma print_fields [simp]:
  "files (print msg st) = files st" "dirs (print msg st) = dirs st"
  "writes (print msg st) = writes st" "requests (print msg st) = requests st"
  "world (print msg st) = world st" "out (print msg st) = out st @ [msg]"
  by (simp_all add: print_def)

lemma os_path_exists_print [simp]: "os_path_exists (print msg st) p = os_path_exists st p"
  by (simp add: os_path_exists_def)

lemma get_symbol_path_Inr:
  assumes "get_symbol_path self symbol market st = (Inr fp, st1)"
  shows "fp = os_path_join (os_path_join (root_dir self) market) (symbol @ ''.csv'')"
    and "st1 = st\<lparr>dirs := insert (os_path_join (root_dir self) market) (dirs st)\<rparr>"
  using assms by (auto simp: get_symbol_path_def os_makedirs_def Let_def split: if_splits)

lemma get_symbol_path_Inl:
  "get_symbol_path self symbol market st = (Inl e, st1) \<Longrightarrow> st1 = st"
  by (auto simp: get_symbol_path_def os_makedirs_def Let_def split: if_splits)

lemma get_symbol_path_frame:
  assumes "get_symbol_path self symbol market st = (r, st1)"
  shows "files st1 = files st" and "writes st1 = writes st" and "requests st1 = requests st"
    and "out st1 = out st" and "world st1 = world st"
  using assms by (auto simp: get_symbol_path_def os_makedirs_def Let_def split: if_splits)

lemma download_historical_data_frame:
  assumes "download_historical_data x symbol start end st = (r, st')"
  shows "\<exists>nd. r = Inr nd" and "files st' = files st" and "dirs st' = dirs st"
    and "writes st' = writes st" and "requests st' = requests st @ [Download symbol start end]"
  using assms
  by (auto simp: download_historical_data_def Let_def print_def
           split: prod.splits sum.splits py_exception.splits)

lemma load_existing_Inr:
  assumes "load_existing x st fp = Inr (ex, start)"
  shows "fp \<notin> dirs st" and "os_path_exists st fp \<longleftrightarrow> ex \<noteq> None"
  using assms
  by (auto simp: load_existing_def os_path_exists_def read_csv_def read_table_def
           split: if_splits sum.splits option.splits)

lemma fetch_new_frame:
  assumes "fetch_new x self symbol market st = (r, st2)"
  shows "files st2 = files st" and "writes st2 = writes st"
proof -
  obtain r1 st1 where p: "get_symbol_path self symbol market st = (r1, st1)"
    by (cases "get_symbol_path self symbol market st")
  note f1 = get_symbol_path_frame [OF p]
  have "files st2 = files st \<and> writes st2 = writes st"
  proof (cases r1)
    case (Inl e)
    with p assms f1 show ?thesis by (auto simp: fetch_new_def)
  next
    case (Inr fp)
    show ?thesis
    proof (cases "load_existing x st1 fp")
      case (Inl e)
      with p Inr assms f1 show ?thesis by (auto simp: fetch_new_def)
    next
      case r: (Inr pr)
      obtain ex start where pr: "pr = (ex, start)" by (cases pr)
      obtain r3 st3 where d: "download_historical_data x (full_symbol symbol market) start
          (today x (world st1)) st1 = (r3, st3)"
        by (cases "download_historical_data x (full_symbol symbol market) start (today x (world st1)) st1")
      note f3 = download_historical_data_frame [OF d]
      from p Inr r pr d assms have "st2 = st3"
        by (auto simp: fetch_new_def split: sum.splits)
      with f1 f3 show ?thesis by simp
    qed
  qed
  then show "files st2 = files st" and "writes st2 = writes st" by simp_all
qed

lemma fetch_new_Inr:
  assumes "fetch_new x self symbol market st = (Inr (fp, ex, nd), st2)"
  shows "dirs st2 = insert (os_path_join (root_dir self) market) (dirs st)"
    and "fp \<notin> dirs st2" and "os_path_exists st2 fp \<longleftrightarrow> ex \<noteq> None"
proof -
  from assms obtain st1 start where
    p: "get_symbol_path self symbol market st = (Inr fp, st1)" and
    l: "load_existing x st1 fp = Inr (ex, start)" and
    d: "download_historical_data x (full_symbol symbol market) start (today x (world st1)) st1 = (Inr nd, st2)"
    by (auto simp: fetch_new_def split: prod.splits sum.splits)
  note f2 = download_historical_data_frame [OF d]
  show "dirs st2 = insert (os_path_join (root_dir self) market) (dirs st)"
    using get_symbol_path_Inr(2) [OF p] f2 by simp
  show "fp \<notin> dirs st2" using load_existing_Inr(1) [OF l] f2 by simp
  show "os_path_exists st2 fp \<longleftrightarrow> ex \<noteq> None"
    using load_existing_Inr(2) [OF l] f2 by (auto simp: os_path_exists_def split: if_splits)
qed

lemma df_empty_Nil [simp]: "df_empty []"
  by (simp add: df_empty_def)

lemma merge_and_save_no_data:
  assumes "new_data = None \<or> (\<exists>df. new_data = Some df \<and> df_empty df)"
  shows "merge_and_save x symbol fp ex new_data st = (Inr (), print (''No new data for '' @ symbol) st)"
  using assms by (auto simp: merge_and_save_def)

lemma update_no_new_data_frame:
  assumes "no_new_data (fst (fetch_new x self symbol market st))"
  shows "files (snd (update_historical_data x self symbol market st)) = files st"
    and "writes (snd (update_historical_data x self symbol market st)) = writes st"
proof -
  obtain r st2 where f: "fetch_new x self symbol market st = (r, st2)"
    by (cases "fetch_new x self symbol market st")
  note fr = fetch_new_frame [OF f]
  have "files (snd (update_historical_data x self symbol market st)) = files st
      \<and> writes (snd (update_historical_data x self symbol market st)) = writes st"
  proof (cases r)
    case (Inl e)
    with f fr show ?thesis by (simp add: update_historical_data_def)
  next
    case (Inr t)
    obtain fp ex nd where t: "t = (fp, ex, nd)" by (cases t)
    from assms f Inr t have "nd = None \<or> (\<exists>df. nd = Some df \<and> df_empty df)"
      by (auto simp: no_new_data_def split: option.splits)
    from f Inr t fr show ?thesis
      by (simp add: update_historical_data_def merge_and_save_no_data [OF \<open>nd = None \<or> (\<exists>df. nd = Some df \<and> df_empty df)\<close>])
  qed
  then show "files (snd (update_historical_data x self symbol market st)) = files st"
    and "writes (snd (update_historical_data x self symbol market st)) = writes st"
    by simp_all
qed

lemma get_realtime_data_frame:
  assumes "get_realtime_data x self symbol market period st = (r, st')"
  shows "\<exists>df. r = Inr df"
  using assms
  by (auto simp: get_realtime_data_def Let_def print_def
           split: prod.splits sum.splits py_exception.splits)

lemma batch_loop_append:
  "batch_loop x self (ps1 @ ps2) st =
     (case batch_loop x self ps1 st of
        (Inl e, st') \<Rightarrow> (Inl e, st')
      | (Inr u, st') \<Rightarrow> batch_loop x self ps2 st')"
proof (induction ps1 arbitrary: st)
  case Nil
  show ?case by simp
next
  case (Cons p ps1)
  obtain symbol market where p: "p = (symbol, market)" by (cases p)
  show ?case
    by (simp add: p Cons.IH split: prod.splits sum.splits)
qed

lemma merge_and_save_requests:
  "requests (snd (merge_and_save x symbol fp ex nd st)) = requests st"
  by (auto simp: merge_and_save_def to_csv_def split: option.splits sum.splits if_splits)

lemma df_empty_fetched:
  "df_empty (rename_columns (map (\<lambda>(t, r). (Ts t, r)) df)) = df_empty df"
  by (cases df) (auto simp: df_empty_def rename_columns_def list_all_iff split: prod.splits)

lemma load_existing_file:
  assumes "files st fp = Some table" and "fp \<notin> dirs st" and "table \<noteq> []"
    and "pd_to_datetime x (index_label x (map fst table) (fst (last table))) = Inr d"
  shows "load_existing x st fp =
           Inr (Some (map (\<lambda>(s, r). (index_label x (map fst table) s, r)) table),
                Some (d + timedelta_days 1))"
proof -
  have "fst (last (map (\<lambda>(s, r). (index_label x (map fst table) s, r)) table)) =
          index_label x (map fst table) (fst (last table))"
    using assms(3) by (simp add: last_map split: prod.splits)
  with assms show ?thesis
    by (simp add: load_existing_def os_path_exists_def read_csv_def read_table_def
          index_last_def domI)
qed

lemma load_existing_no_file:
  assumes "files st fp = None" and "fp \<notin> dirs st"
  shows "load_existing x st fp = Inr (None, None)"
  using assms by (simp add: load_existing_def os_path_exists_def domIff)

lemma update_requests:
  assumes p: "get_symbol_path self symbol market st = (Inr fp, st1)"
    and l: "load_existing x st1 fp = Inr (ex, start)"
  shows "requests (snd (update_historical_data x self symbol market st)) =
           requests st @ [Download (full_symbol symbol market) start (today x (world st))]"
proof -
  obtain r st2 where d: "download_historical_data x (full_symbol symbol market) start
      (today x (world st1)) st1 = (r, st2)"
    by (cases "download_historical_data x (full_symbol symbol market) start (today x (world st1)) st1")
  from download_historical_data_frame(1) [OF d] obtain nd where r: "r = Inr nd" by blast
  have "update_historical_data x self symbol market st = merge_and_save x symbol fp ex nd st2"
    using p l d r by (simp add: update_historical_data_def fetch_new_def)
  then show ?thesis
    using download_historical_data_frame(5) [OF d] get_symbol_path_frame(3,5) [OF p]
    by (simp add: merge_and_save_requests)
qed

lemma get_local_data_frame:
  "files (snd (get_local_data x self symbol market st)) = files st
   \<and> writes (snd (get_local_data x self symbol market st)) = writes st
   \<and> requests (snd (get_local_data x self symbol market st)) = requests st
   \<and> world (snd (get_local_data x self symbol market st)) = world st"
proof -
  obtain r st1 where p: "get_symbol_path self symbol market st = (r, st1)"
    by (cases "get_symbol_path self symbol market st")
  from get_symbol_path_frame [OF p] p show ?thesis
    by (auto simp: get_local_data_def split: sum.splits)
qed

lemma get_local_data_dirs:
  assumes "os_path_join (root_dir self) market \<in> dirs st"
  shows "dirs (snd (get_local_data x self symbol market st)) = dirs st"
proof -
  obtain r st1 where p: "get_symbol_path self symbol market st = (r, st1)"
    by (cases "get_symbol_path self symbol market st")
  have "dirs st1 = dirs st"
  proof (cases r)
    case (Inl e)
    with p get_symbol_path_Inl show ?thesis by fastforce
  next
    case (Inr fp)
    with p get_symbol_path_Inr(2) [of self symbol market st fp st1] assms show ?thesis
      by (simp add: insert_absorb)
  qed
  with p show ?thesis
    by (auto simp: get_local_data_def split: sum.splits)
qed

section \<open>Dropping duplicated labels and the order of dates\<close>

lemma drop_duplicated_Nil [simp]: "drop_duplicated [] = []"
  by (simp add: drop_duplicated_def frame_where_def)

lemma drop_duplicated_Cons:
  "drop_duplicated (p # df) =
     (if fst p \<in> fst ` set df then drop_duplicated df else p # drop_duplicated df)"
  by (simp add: drop_duplicated_def frame_where_def)

lemma set_drop_duplicated: "set (drop_duplicated df) \<subseteq> set df"
  by (induction df) (auto simp: drop_duplicated_Cons)

lemma ascending_Cons:
  "ascending (d # ds) \<longleftrightarrow> d \<noteq> None \<and> (\<forall>e \<in> set ds. the d \<le> the e) \<and> ascending ds"
  by (auto simp: ascending_def)

lemma ascending_drop_duplicated:
  "ascending (frame_dates x df) \<Longrightarrow> ascending (frame_dates x (drop_duplicated df))"
proof (induction df)
  case Nil
  then show ?case by simp
next
  case (Cons p df)
  from Cons.prems have hd: "label_date x (fst p) \<noteq> None"
    and le: "\<forall>e \<in> set (frame_dates x df). the (label_date x (fst p)) \<le> the e"
    and tl: "ascending (frame_dates x df)"
    by (simp_all add: frame_dates_def ascending_Cons)
  show ?case
  proof (cases "fst p \<in> fst ` set df")
    case True
    with Cons.IH [OF tl] show ?thesis by (simp add: drop_duplicated_Cons)
  next
    case False
    have "set (frame_dates x (drop_duplicated df)) \<subseteq> set (frame_dates x df)"
      using set_drop_duplicated [of df] by (auto simp: frame_dates_def)
    with le have "\<forall>e \<in> set (frame_dates x (drop_duplicated df)). the (label_date x (fst p)) \<le> the e"
      by blast
    with hd Cons.IH [OF tl] have "ascending (label_date x (fst p) # frame_dates x (drop_duplicated df))"
      by (simp add: ascending_Cons)
    with False show ?thesis
      by (simp add: drop_duplicated_Cons frame_dates_def)
  qed
qed

lemma stamps_append [simp]: "stamps (ls @ ms) = stamps ls @ stamps ms"
  by (induction ls rule: stamps.induct) simp_all

lemma Ts_in_stamps: "Ts t \<in> set ls \<Longrightarrow> t \<in> set (stamps ls)"
  by (induction ls rule: stamps.induct) auto

lemma csv_label_date:
  assumes "list_all (reads_back x) (stamps idx')" and "l \<in> set idx'"
  shows "to_datetime x (csv_label x idx l) = label_date x l"
proof (cases l)
  case (Str s)
  then show ?thesis by (simp add: csv_label_def label_date_def)
next
  case (Val v)
  then show ?thesis by (simp add: csv_label_def label_date_def)
next
  case (Ts t)
  with assms(2) have "t \<in> set (stamps idx')" by (simp add: Ts_in_stamps)
  with assms(1) have "reads_back x t" by (simp add: list_all_iff)
  with Ts show ?thesis by (simp add: csv_label_def label_date_def reads_back_def)
qed

lemma csv_dates_written:
  assumes "list_all (reads_back x) (stamps (map fst df))" and "set D \<subseteq> set df"
  shows "csv_dates x (map (\<lambda>(l, r). (csv_label x idx l, r)) D) = frame_dates x D"
proof -
  have "to_datetime x (csv_label x idx l) = label_date x l" if "(l, r) \<in> set D" for l r
  proof -
    from that assms(2) have "l \<in> set (map fst df)" by force
    with csv_label_date [OF assms(1)] show ?thesis .
  qed
  then show ?thesis
    by (auto simp: csv_dates_def frame_dates_def split: prod.splits)
qed

lemma index_label_not_Ts: "\<not> is_Ts (index_label x idx s)"
  by (simp add: index_label_def split: option.splits)

lemma stamps_Nil_iff: "stamps ls = [] \<longleftrightarrow> list_all (\<lambda>l. \<not> is_Ts l) ls"
  by (induction ls rule: stamps.induct) simp_all

lemma read_csv_stamps:
  assumes "read_csv x st fp = Inr df"
  shows "stamps (map fst df) = []"
proof -
  from assms obtain table where
    "df = map (\<lambda>(s, r). (index_label x (map fst table) s, r)) table"
    by (auto simp: read_csv_def split: sum.splits)
  then show ?thesis
    by (auto simp: stamps_Nil_iff list_all_iff index_label_not_Ts)
qed

lemma load_existing_stamps:
  "load_existing x st fp = Inr (Some ex, start) \<Longrightarrow> stamps (map fst ex) = []"
  by (auto simp: load_existing_def dest: read_csv_stamps split: if_splits sum.splits)

lemma fetch_new_stamps:
  assumes "fetch_new x self symbol market st = (Inr (fp, Some ex, nd), st2)"
  shows "stamps (map fst ex) = []"
  using assms
  by (auto simp: fetch_new_def load_existing_stamps split: prod.splits sum.splits)

lemma merge_and_save_writes:
  assumes "\<not> df_empty nd" and "fp \<notin> dirs st" and "os_path_exists st fp \<longleftrightarrow> ex \<noteq> None"
  shows "merge_and_save x symbol fp ex (Some nd) st =
     (Inr (),
      print (''Updated '' @ symbol @ '' with '' @ str_nat (length nd) @ '' new records'')
        (st\<lparr>files := (files st)(fp \<mapsto>
               map (\<lambda>(l, r). (csv_label x (map fst (drop_duplicated ((case ex of None \<Rightarrow> [] | Some e \<Rightarrow> e) @ nd))) l, r))
                 (drop_duplicated ((case ex of None \<Rightarrow> [] | Some e \<Rightarrow> e) @ nd))),
            writes := writes st @ [fp]\<rparr>))"
  using assms by (cases ex) (simp_all add: merge_and_save_def to_csv_def)

text \<open>
  Labels read from a stored file are never \<^verbatim>\<open>Timestamp\<close>s and labels fetched from the
  provider always are, so dropping the duplicated labels of the two frames in a row never
  drops a stored row for a fetched one: it is the same as dropping within each frame.
\<close>

lemma drop_duplicated_stored_fetched:
  assumes "stamps (map fst ex) = []" and "list_all is_Ts (map fst nd)"
  shows "drop_duplicated (ex @ nd) = drop_duplicated ex @ drop_duplicated nd"
  using assms(1)
proof (induction ex)
  case Nil
  show ?case by simp
next
  case (Cons p ex)
  from Cons.prems have l: "\<not> is_Ts (fst p)" and tl: "stamps (map fst ex) = []"
    by (simp_all add: stamps_Nil_iff)
  have "fst p \<notin> fst ` set nd"
  proof
    assume "fst p \<in> fst ` set nd"
    then obtain q where q: "q \<in> set nd" "fst q = fst p" by auto
    from assms(2) q(1) have "is_Ts (fst q)" by (simp add: list_all_iff)
    with q(2) l show False by simp
  qed
  then have "fst p \<in> fst ` set (ex @ nd) \<longleftrightarrow> fst p \<in> fst ` set ex"
    by auto
  with Cons.IH [OF tl] show ?case
    by (simp add: drop_duplicated_Cons del: set_append)
qed

text \<open>What dropping the duplicated labels keeps: one row for each label, in the order of
  the last rows of the labels, and for each label its last row.\<close>

lemma labels_drop_duplicated: "map fst (drop_duplicated df) = remdups (map fst df)"
  by (induction df) (simp_all add: drop_duplicated_Cons)

lemma drop_duplicated_last_row:
  "(l, r) \<in> set (drop_duplicated df) \<Longrightarrow> map_of (rev df) l = Some r"
proof (induction df)
  case Nil
  then show ?case by simp
next
  case (Cons p df)
  show ?case
  proof (cases "(l, r) \<in> set (drop_duplicated df)")
    case True
    from Cons.IH [OF True] show ?thesis by (simp add: map_add_def)
  next
    case False
    with Cons.prems have p: "p = (l, r)" and "fst p \<notin> fst ` set df"
      by (auto simp: drop_duplicated_Cons split: if_splits)
    then have "map_of (rev df) l = None"
      by (simp add: map_of_eq_None_iff)
    with p show ?thesis by (simp add: map_add_def)
  qed
qed

lemma drop_duplicated_Ts:
  "drop_duplicated (map (\<lambda>(t, r). (Ts t, r)) df) = map (\<lambda>(t, r). (Ts t, r)) (drop_duplicated df)"
proof (induction df)
  case Nil
  show ?case by simp
next
  case (Cons p df)
  obtain t r where p: "p = (t, r)" by (cases p)
  have m: "Ts t \<in> fst ` (\<lambda>(t, r). (Ts t, r)) ` set df \<longleftrightarrow> t \<in> fst ` set df"
    by force
  from Cons.IH show ?case
    by (simp add: p drop_duplicated_Cons m)
qed

lemma rename_columns_Ts:
  "rename_columns (map (\<lambda>(t, r). (Ts t, r)) df) = map (\<lambda>(t, r). (Ts t, r)) (rename_columns df)"
  by (induction df) (auto simp: rename_columns_def)

lemma labels_rename_columns [simp]: "map fst (rename_columns df) = map fst df"
  by (induction df) (auto simp: rename_columns_def)

lemma csv_label_all_Ts:
  assumes "list_all is_Ts idx"
  shows "map (\<lambda>(l, r). (csv_label x idx l, r)) (map (\<lambda>(t, r). (Ts t, r)) D)
     = map (\<lambda>(t, r). (csv_datetime_index x (stamps idx) t, r)) D"
  using assms by (induction D) (auto simp: csv_label_def)

lemma is_Ts_fetched: "list_all is_Ts (map fst (map (\<lambda>(t, r). (Ts t, r)) D))"
  by (induction D) auto

lemma stamps_fetched: "stamps (map fst (map (\<lambda>(t, r). (Ts t, r)) D)) = map fst D"
  by (induction D) auto

lemma csv_label_Ts:
  "map (\<lambda>(l, r). (csv_label x (map fst (map (\<lambda>(t, r). (Ts t, r)) D)) l, r)) (map (\<lambda>(t, r). (Ts t, r)) D)
     = map (\<lambda>(t, r). (csv_datetime_index x (map fst D) t, r)) D"
  using csv_label_all_Ts [OF is_Ts_fetched, of x D D] by (simp only: stamps_fetched)

text \<open>The loop of the batch is the fold of \<open>update_at\<close> over the positions the two lists
  share.\<close>

lemma fold_update_at_Inl:
  "fold (update_at x self ss ms) js (Inl e, st) = (Inl e, st)"
  by (induction js) (simp_all add: update_at_def)

lemma update_at_Suc:
  "update_at x self (s # ss) (m # ms) (Suc i) acc = update_at x self ss ms i acc"
  by (simp add: update_at_def split: prod.splits sum.splits)

lemma update_at_0:
  "update_at x self (s # ss) (m # ms) 0 (Inr (), st) = update_historical_data x self s m st"
  by (simp add: update_at_def)

lemma fold_update_at_Cons:
  "fold (update_at x self (s # ss) (m # ms)) (map Suc js) acc = fold (update_at x self ss ms) js acc"
  by (induction js arbitrary: acc) (simp_all add: update_at_Suc)

lemma upt_0_Suc: "[0..<Suc n] = 0 # map Suc [0..<n]"
  by (simp add: upt_conv_Cons map_Suc_upt del: upt_Suc)

lemma batch_loop_fold:
  "batch_loop x self (zip ss ms) st =
     fold (update_at x self ss ms) [0..<min (length ss) (length ms)] (Inr (), st)"
proof (induction ss arbitrary: ms st)
  case Nil
  show ?case by simp
next
  case (Cons s ss)
  show ?case
  proof (cases ms)
    case Nil
    then show ?thesis by simp
  next
    case (Cons m ms')
    have "fold (update_at x self (s # ss) (m # ms'))
            [0..<min (length (s # ss)) (length (m # ms'))] (Inr (), st) =
          fold (update_at x self (s # ss) (m # ms')) (map Suc [0..<min (length ss) (length ms')])
            (update_at x self (s # ss) (m # ms') 0 (Inr (), st))"
      by (simp add: upt_0_Suc del: upt_Suc)
    also have "\<dots> = fold (update_at x self ss ms') [0..<min (length ss) (length ms')]
            (update_historical_data x self s m st)"
      by (simp only: fold_update_at_Cons update_at_0)
    finally have f: "fold (update_at x self (s # ss) (m # ms'))
            [0..<min (length (s # ss)) (length (m # ms'))] (Inr (), st) =
          fold (update_at x self ss ms') [0..<min (length ss) (length ms')]
            (update_historical_data x self s m st)" .
    obtain r st' where u: "update_historical_data x self s m st = (r, st')"
      by (cases "update_historical_data x self s m st")
    show ?thesis
    proof (cases r)
      case (Inl e)
      with u have "batch_loop x self (zip (s # ss) (m # ms')) st = (Inl e, st')" by simp
      with u Inl f Cons show ?thesis
        by (simp only: fold_update_at_Inl)
    next
      case (Inr v)
      with u have "batch_loop x self (zip (s # ss) (m # ms')) st = batch_loop x self (zip ss ms') st'"
        by simp
      also have "\<dots> = fold (update_at x self ss ms') [0..<min (length ss) (length ms')] (Inr (), st')"
        by (rule Cons.IH)
      finally show ?thesis
        using u Inr f Cons by simp
    qed
  qed
qed

section \<open>The claims\<close>

subsection \<open>C1: merging an overlapping fetch\<close>

text \<open>
  C1.  The stored file holds the five days 2024-01-01 to 2024-01-05 and the provider
  returns the four days 2024-01-04 to 2024-01-07, with another close for 2024-01-04.
  The claim asks for seven rows, ascending, with the fetched bar at the two days of the
  overlap.  The code reads the stored index as text (\<^verbatim>\<open>read_csv\<close> without
  \<^verbatim>\<open>parse_dates\<close>, line 76) and receives the fetched index as \<^verbatim>\<open>Timestamp\<close>s, so
  \<^verbatim>\<open>duplicated(keep='last')\<close> finds no label twice: the file written has nine rows,
  the two days of the overlap twice, the stored bar first.
\<close>

theorem update_misses_overlap:
  "files (snd (update_historical_data demo_ext demo_self ''AAPL'' ''US''
      (demo_state {''stock_data/US'', ''stock_data''}
         [(''stock_data/US/AAPL.csv'',
           [(''2024-01-01'', [(''close'', 10)]), (''2024-01-02'', [(''close'', 11)]),
            (''2024-01-03'', [(''close'', 12)]), (''2024-01-04'', [(''close'', 13)]),
            (''2024-01-05'', [(''close'', 14)])])]
         [Inr [(1704326400, [(''Close'', 99)]), (1704412800, [(''Close'', 15)]),
               (1704499200, [(''Close'', 16)]), (1704585600, [(''Close'', 17)])]])))
     ''stock_data/US/AAPL.csv''
   = Some [(''2024-01-01'', [(''close'', 10)]), (''2024-01-02'', [(''close'', 11)]),
           (''2024-01-03'', [(''close'', 12)]), (''2024-01-04'', [(''close'', 13)]),
           (''2024-01-05'', [(''close'', 14)]),
           (''2024-01-04 00:00:00'', [(''close'', 99)]), (''2024-01-05 00:00:00'', [(''close'', 15)]),
           (''2024-01-06 00:00:00'', [(''close'', 16)]), (''2024-01-07 00:00:00'', [(''close'', 17)])]"
  by (simp add: model_defs demo_defs)

subsection \<open>C2: the order of the persisted file\<close>

text \<open>
  C2, as amended.  The update never sorts.  When the stored rows followed by the fetched
  rows are ascending by date, and the text written for each fetched \<^verbatim>\<open>Timestamp\<close>
  reads back as that \<^verbatim>\<open>Timestamp\<close>, an update that fetched rows writes a file that is
  ascending by date.
\<close>

theorem update_keeps_ascending:
  assumes f: "fetch_new x self symbol market st = (Inr (file_path, existing_df, Some nd), st2)"
    and ne: "\<not> df_empty nd"
    and asc: "ascending (frame_dates x ((case existing_df of None \<Rightarrow> [] | Some ex \<Rightarrow> ex) @ nd))"
    and rb: "list_all (reads_back x) (stamps (map fst nd))"
  shows "\<exists>table. files (snd (update_historical_data x self symbol market st)) file_path = Some table
           \<and> sorted_by_date x table"
proof -
  let ?old = "case existing_df of None \<Rightarrow> [] | Some ex \<Rightarrow> ex"
  let ?D = "drop_duplicated (?old @ nd)"
  let ?table = "map (\<lambda>(l, r). (csv_label x (map fst ?D) l, r)) ?D"
  have u: "update_historical_data x self symbol market st =
      merge_and_save x symbol file_path existing_df (Some nd) st2"
    using f by (simp add: update_historical_data_def)
  have w: "files (snd (update_historical_data x self symbol market st)) file_path = Some ?table"
    unfolding u merge_and_save_writes [OF ne fetch_new_Inr(2,3) [OF f]] by simp
  have "stamps (map fst ?old) = []"
    using fetch_new_stamps [of x self symbol market st file_path _ "Some nd" st2] f
    by (cases existing_df) simp_all
  with rb have rb': "list_all (reads_back x) (stamps (map fst (?old @ nd)))" by simp
  have "csv_dates x ?table = frame_dates x ?D"
    using csv_dates_written [OF rb' set_drop_duplicated] .
  with ascending_drop_duplicated [OF asc] have "sorted_by_date x ?table"
    by (simp add: sorted_by_date_def)
  with w show ?thesis by blast
qed

text \<open>
  C2, witness: two stored days and a fetch of the two days after them.
\<close>

theorem update_keeps_ascending_witness:
  "fetch_new demo_ext demo_self ''AAPL'' ''US''
      (demo_state {''stock_data/US'', ''stock_data''}
         [(''stock_data/US/AAPL.csv'',
           [(''2024-01-01'', [(''close'', 10)]), (''2024-01-02'', [(''close'', 11)])])]
         [Inr [(1704240000, [(''Close'', 12)]), (1704326400, [(''Close'', 13)])]])
    = (Inr (''stock_data/US/AAPL.csv'',
            Some [(Str ''2024-01-01'', [(''close'', 10)]), (Str ''2024-01-02'', [(''close'', 11)])],
            Some [(Ts 1704240000, [(''close'', 12)]), (Ts 1704326400, [(''close'', 13)])]),
       (demo_state {''stock_data/US'', ''stock_data''}
         [(''stock_data/US/AAPL.csv'',
           [(''2024-01-01'', [(''close'', 10)]), (''2024-01-02'', [(''close'', 11)])])] [])
        \<lparr>requests := [Download ''AAPL'' (Some 1704240000) ''2024-01-08'']\<rparr>)
   \<and> ascending (frame_dates demo_ext
        ([(Str ''2024-01-01'', [(''close'', 10)]), (Str ''2024-01-02'', [(''close'', 11)])]
         @ [(Ts 1704240000, [(''close'', 12)]), (Ts 1704326400, [(''close'', 13)])]))
   \<and> list_all (reads_back demo_ext) [1704240000, 1704326400]
   \<and> files (snd (update_historical_data demo_ext demo_self ''AAPL'' ''US''
      (demo_state {''stock_data/US'', ''stock_data''}
         [(''stock_data/US/AAPL.csv'',
           [(''2024-01-01'', [(''close'', 10)]), (''2024-01-02'', [(''close'', 11)])])]
         [Inr [(1704240000, [(''Close'', 12)]), (1704326400, [(''Close'', 13)])]])))
      ''stock_data/US/AAPL.csv''
    = Some [(''2024-01-01'', [(''close'', 10)]), (''2024-01-02'', [(''close'', 11)]),
            (''2024-01-03 00:00:00'', [(''close'', 12)]), (''2024-01-04 00:00:00'', [(''close'', 13)])]
   \<and> sorted_by_date demo_ext
        [(''2024-01-01'', [(''close'', 10)]), (''2024-01-02'', [(''close'', 11)]),
         (''2024-01-03 00:00:00'', [(''close'', 12)]), (''2024-01-04 00:00:00'', [(''close'', 13)])]"
proof -
  let ?S = "demo_state {''stock_data/US'', ''stock_data''}
         [(''stock_data/US/AAPL.csv'',
           [(''2024-01-01'', [(''close'', 10)]), (''2024-01-02'', [(''close'', 11)])])]
         [Inr [(1704240000, [(''Close'', 12)]), (1704326400, [(''Close'', 13)])]]"
  let ?ex = "[(Str ''2024-01-01'', [(''close'', 10 :: int)]), (Str ''2024-01-02'', [(''close'', 11)])]"
  let ?nd = "[(Ts 1704240000, [(''close'', 12 :: int)]), (Ts 1704326400, [(''close'', 13)])]"
  have h1: "fetch_new demo_ext demo_self ''AAPL'' ''US'' ?S
    = (Inr (''stock_data/US/AAPL.csv'', Some ?ex, Some ?nd),
       (demo_state {''stock_data/US'', ''stock_data''}
         [(''stock_data/US/AAPL.csv'',
           [(''2024-01-01'', [(''close'', 10)]), (''2024-01-02'', [(''close'', 11)])])] [])
        \<lparr>requests := [Download ''AAPL'' (Some 1704240000) ''2024-01-08'']\<rparr>)"
    by (simp add: model_defs demo_defs insert_absorb)
  have h2: "\<not> df_empty ?nd"
    by (simp add: df_empty_def)
  have h3: "ascending (frame_dates demo_ext ((case Some ?ex of None \<Rightarrow> [] | Some ex \<Rightarrow> ex) @ ?nd))"
    by (simp add: ascending_def frame_dates_def label_date_def demo_defs)
  have h4: "list_all (reads_back demo_ext) (stamps (map fst ?nd))"
    by (simp add: reads_back_def demo_defs)
  have e: "files (snd (update_historical_data demo_ext demo_self ''AAPL'' ''US'' ?S))
      ''stock_data/US/AAPL.csv''
    = Some [(''2024-01-01'', [(''close'', 10)]), (''2024-01-02'', [(''close'', 11)]),
            (''2024-01-03 00:00:00'', [(''close'', 12)]), (''2024-01-04 00:00:00'', [(''close'', 13)])]"
    by (simp add: model_defs demo_defs)
  from update_keeps_ascending [OF h1 h2 h3 h4] e
  have "sorted_by_date demo_ext
        [(''2024-01-01'', [(''close'', 10)]), (''2024-01-02'', [(''close'', 11)]),
         (''2024-01-03 00:00:00'', [(''close'', 12)]), (''2024-01-04 00:00:00'', [(''close'', 13)])]"
    by auto
  with h1 h3 h4 e show ?thesis by simp
qed

text \<open>
  C2, counterexample to the claim as stated: the file holds 2024-01-05 and the provider
  returns 2024-01-03; the fetched row is written after the stored one.
\<close>

theorem update_does_not_sort:
  "files (snd (update_historical_data demo_ext demo_self ''AAPL'' ''US''
      (demo_state {''stock_data/US'', ''stock_data''}
         [(''stock_data/US/AAPL.csv'', [(''2024-01-05'', [(''close'', 14)])])]
         [Inr [(1704240000, [(''Close'', 12)])]])))
     ''stock_data/US/AAPL.csv''
   = Some [(''2024-01-05'', [(''close'', 14)]), (''2024-01-03 00:00:00'', [(''close'', 12)])]
   \<and> \<not> sorted_by_date demo_ext
         [(''2024-01-05'', [(''close'', 14)]), (''2024-01-03 00:00:00'', [(''close'', 12)])]"
  by (simp add: model_defs demo_defs sorted_by_date_def csv_dates_def ascending_def)

subsection \<open>C3: one bar per date\<close>

text \<open>
  C3.  The file holds 2024-01-04 and the provider returns a bar for 2024-01-04.  The
  claim asks for one bar of that date in the file written; the stored label is a text
  and the fetched one a \<^verbatim>\<open>Timestamp\<close>, neither is dropped, and both rows of the file
  written read as 2024-01-04.
\<close>

theorem update_keeps_two_bars_of_a_date:
  "csv_dates demo_ext
     (the (files (snd (update_historical_data demo_ext demo_self ''AAPL'' ''US''
        (demo_state {''stock_data/US'', ''stock_data''}
           [(''stock_data/US/AAPL.csv'', [(''2024-01-04'', [(''close'', 13)])])]
           [Inr [(1704326400, [(''Close'', 99)])]])))
        ''stock_data/US/AAPL.csv''))
   = [Some 1704326400, Some 1704326400]"
  by (simp add: model_defs demo_defs csv_dates_def)

subsection \<open>C4: a second update with nothing new\<close>

text \<open>
  C4.  Two updates of the same identifier in succession, where the fetch of the second one
  brings nothing: the second update leaves every stored file as the first one left it,
  and writes nothing.
\<close>

theorem update_twice_unchanged:
  assumes "update_historical_data x self symbol market st = (r1, st1)"
    and "no_new_data (fst (fetch_new x self symbol market st1))"
  shows "files (snd (update_historical_data x self symbol market st1)) = files st1
       \<and> writes (snd (update_historical_data x self symbol market st1)) = writes st1"
  using update_no_new_data_frame [OF assms(2)] by simp

text \<open>
  C4, witness: the first update creates the file from two fetched days, the second one
  fetches an empty frame.
\<close>

theorem update_twice_unchanged_witness:
  "update_historical_data demo_ext demo_self ''AAPL'' ''US''
     (demo_state {''stock_data''} []
        [Inr [(1704067200, [(''Close'', 10)]), (1704153600, [(''Close'', 11)])], Inr []])
   = (Inr (),
      \<lparr>dirs = {''stock_data/US'', ''stock_data''},
       files = [''stock_data/US/AAPL.csv'' \<mapsto>
                  [(''2024-01-01'', [(''close'', 10)]), (''2024-01-02'', [(''close'', 11)])]],
       out = [''Updated AAPL with 2 new records''],
       requests = [Download ''AAPL'' None ''2024-01-08''],
       writes = [''stock_data/US/AAPL.csv''],
       world = [Inr []]\<rparr>)
   \<and> fetch_new demo_ext demo_self ''AAPL'' ''US''
      \<lparr>dirs = {''stock_data/US'', ''stock_data''},
       files = [''stock_data/US/AAPL.csv'' \<mapsto>
                  [(''2024-01-01'', [(''close'', 10)]), (''2024-01-02'', [(''close'', 11)])]],
       out = [''Updated AAPL with 2 new records''],
       requests = [Download ''AAPL'' None ''2024-01-08''],
       writes = [''stock_data/US/AAPL.csv''],
       world = [Inr []]\<rparr>
     = (Inr (''stock_data/US/AAPL.csv'',
             Some [(Str ''2024-01-01'', [(''close'', 10)]), (Str ''2024-01-02'', [(''close'', 11)])],
             Some []),
        \<lparr>dirs = {''stock_data/US'', ''stock_data''},
         files = [''stock_data/US/AAPL.csv'' \<mapsto>
                    [(''2024-01-01'', [(''close'', 10)]), (''2024-01-02'', [(''close'', 11)])]],
         out = [''Updated AAPL with 2 new records''],
         requests = [Download ''AAPL'' None ''2024-01-08'', Download ''AAPL'' (Some 1704240000) ''2024-01-08''],
         writes = [''stock_data/US/AAPL.csv''],
         world = []\<rparr>)
   \<and> files (snd (update_historical_data demo_ext demo_self ''AAPL'' ''US''
      \<lparr>dirs = {''stock_data/US'', ''stock_data''},
       files = [''stock_data/US/AAPL.csv'' \<mapsto>
                  [(''2024-01-01'', [(''close'', 10)]), (''2024-01-02'', [(''close'', 11)])]],
       out = [''Updated AAPL with 2 new records''],
       requests = [Download ''AAPL'' None ''2024-01-08''],
       writes = [''stock_data/US/AAPL.csv''],
       world = [Inr []]\<rparr>))
     = [''stock_data/US/AAPL.csv'' \<mapsto>
          [(''2024-01-01'', [(''close'', 10)]), (''2024-01-02'', [(''close'', 11)])]]"
proof -
  have h1: "update_historical_data demo_ext demo_self ''AAPL'' ''US''
     (demo_state {''stock_data''} []
        [Inr [(1704067200, [(''Close'', 10)]), (1704153600, [(''Close'', 11)])], Inr []])
   = (Inr (),
      \<lparr>dirs = {''stock_data/US'', ''stock_data''},
       files = [''stock_data/US/AAPL.csv'' \<mapsto>
                  [(''2024-01-01'', [(''close'', 10)]), (''2024-01-02'', [(''close'', 11)])]],
       out = [''Updated AAPL with 2 new records''],
       requests = [Download ''AAPL'' None ''2024-01-08''],
       writes = [''stock_data/US/AAPL.csv''],
       world = [Inr []]\<rparr>)"
    by (simp add: model_defs demo_defs str_nat.simps)
  have h2: "fetch_new demo_ext demo_self ''AAPL'' ''US''
      \<lparr>dirs = {''stock_data/US'', ''stock_data''},
       files = [''stock_data/US/AAPL.csv'' \<mapsto>
                  [(''2024-01-01'', [(''close'', 10)]), (''2024-01-02'', [(''close'', 11)])]],
       out = [''Updated AAPL with 2 new records''],
       requests = [Download ''AAPL'' None ''2024-01-08''],
       writes = [''stock_data/US/AAPL.csv''],
       world = [Inr []]\<rparr>
     = (Inr (''stock_data/US/AAPL.csv'',
             Some [(Str ''2024-01-01'', [(''close'', 10)]), (Str ''2024-01-02'', [(''close'', 11)])],
             Some []),
        \<lparr>dirs = {''stock_data/US'', ''stock_data''},
         files = [''stock_data/US/AAPL.csv'' \<mapsto>
                    [(''2024-01-01'', [(''close'', 10)]), (''2024-01-02'', [(''close'', 11)])]],
         out = [''Updated AAPL with 2 new records''],
         requests = [Download ''AAPL'' None ''2024-01-08'', Download ''AAPL'' (Some 1704240000) ''2024-01-08''],
         writes = [''stock_data/US/AAPL.csv''],
         world = []\<rparr>)"
    by (simp add: model_defs demo_defs)
  have h3: "no_new_data (fst (fetch_new demo_ext demo_self ''AAPL'' ''US''
      \<lparr>dirs = {''stock_data/US'', ''stock_data''},
       files = [''stock_data/US/AAPL.csv'' \<mapsto>
                  [(''2024-01-01'', [(''close'', 10)]), (''2024-01-02'', [(''close'', 11)])]],
       out = [''Updated AAPL with 2 new records''],
       requests = [Download ''AAPL'' None ''2024-01-08''],
       writes = [''stock_data/US/AAPL.csv''],
       world = [Inr []]\<rparr>))"
    unfolding h2 by (simp add: no_new_data_def df_empty_def)
  from update_twice_unchanged [OF h1 h3] h1 h2 show ?thesis
    by simp
qed

subsection \<open>C5: an empty or absent fetch\<close>

text \<open>
  C5.  When the update reaches the fetch and the fetch comes back absent or empty, the
  update does not fail: it prints "No new data for <symbol>", every stored file is
  unchanged, and no file is written.
\<close>

theorem empty_fetch_no_write:
  assumes "fetch_new x self symbol market st = (Inr (file_path, existing_df, new_data), st2)"
    and "new_data = None \<or> (\<exists>df. new_data = Some df \<and> df_empty df)"
  shows "update_historical_data x self symbol market st =
           (Inr (), print (''No new data for '' @ symbol) st2)
         \<and> files (snd (update_historical_data x self symbol market st)) = files st
         \<and> writes (snd (update_historical_data x self symbol market st)) = writes st
         \<and> last (out (snd (update_historical_data x self symbol market st))) = ''No new data for '' @ symbol"
proof -
  have u: "update_historical_data x self symbol market st =
           (Inr (), print (''No new data for '' @ symbol) st2)"
    using assms(1) merge_and_save_no_data [OF assms(2)]
    by (simp add: update_historical_data_def)
  show ?thesis
    using u fetch_new_frame [OF assms(1)] by simp
qed

text \<open>
  C5, witness: a stored day and an empty fetch.
\<close>

theorem empty_fetch_no_write_witness:
  "fetch_new demo_ext demo_self ''AAPL'' ''US''
     (demo_state {''stock_data''} [(''stock_data/US/AAPL.csv'', [(''2024-01-01'', [(''close'', 10)])])] [Inr []])
   = (Inr (''stock_data/US/AAPL.csv'', Some [(Str ''2024-01-01'', [(''close'', 10)])], Some []),
      (demo_state {''stock_data/US'', ''stock_data''}
         [(''stock_data/US/AAPL.csv'', [(''2024-01-01'', [(''close'', 10)])])] [])
       \<lparr>requests := [Download ''AAPL'' (Some 1704153600) ''2024-01-08'']\<rparr>)
   \<and> update_historical_data demo_ext demo_self ''AAPL'' ''US''
     (demo_state {''stock_data''} [(''stock_data/US/AAPL.csv'', [(''2024-01-01'', [(''close'', 10)])])] [Inr []])
   = (Inr (),
      (demo_state {''stock_data/US'', ''stock_data''}
         [(''stock_data/US/AAPL.csv'', [(''2024-01-01'', [(''close'', 10)])])] [])
       \<lparr>requests := [Download ''AAPL'' (Some 1704153600) ''2024-01-08''],
         out := [''No new data for AAPL'']\<rparr>)"
proof -
  have h: "fetch_new demo_ext demo_self ''AAPL'' ''US''
     (demo_state {''stock_data''} [(''stock_data/US/AAPL.csv'', [(''2024-01-01'', [(''close'', 10)])])] [Inr []])
   = (Inr (''stock_data/US/AAPL.csv'', Some [(Str ''2024-01-01'', [(''close'', 10)])], Some []),
      (demo_state {''stock_data/US'', ''stock_data''}
         [(''stock_data/US/AAPL.csv'', [(''2024-01-01'', [(''close'', 10)])])] [])
       \<lparr>requests := [Download ''AAPL'' (Some 1704153600) ''2024-01-08'']\<rparr>)"
    by (simp add: model_defs demo_defs)
  have e: "Some ([] :: (int label, int) frame) = None \<or> (\<exists>df. Some ([] :: (int label, int) frame) = Some df \<and> df_empty df)"
    by simp
  from empty_fetch_no_write [OF h e] h show ?thesis
    by (simp add: print_def demo_state_def)
qed

subsection \<open>C6: errors of the provider\<close>

text \<open>
  C6.  Neither fetch lets an exception of the provider escape (any exception derived
  from \<^verbatim>\<open>Exception\<close>, which is what \<^verbatim>\<open>except Exception\<close> catches).  The historical
  fetch and the intraday fetch always return; when the provider raises, the result is
  absent and one line naming the error is printed.
\<close>

theorem fetch_errors_caught:
  "(\<exists>nd st'. download_historical_data x ticker start end st = (Inr nd, st'))
   \<and> (\<exists>df st'. get_realtime_data x self symbol market period st = (Inr df, st'))
   \<and> (\<forall>msg w. yf_download x ticker start end (world st) = (Inl (PyException msg), w) \<longrightarrow>
        download_historical_data x ticker start end st =
          (Inr None,
           st\<lparr>requests := requests st @ [Download ticker start end], world := w,
              out := out st @ [''Error downloading '' @ ticker @ '': '' @ msg]\<rparr>))
   \<and> (\<forall>msg w. ticker_history x (full_symbol symbol market) period (world st) = (Inl (PyException msg), w) \<longrightarrow>
        get_realtime_data x self symbol market period st =
          (Inr None,
           st\<lparr>requests := requests st @ [History (full_symbol symbol market) period], world := w,
              out := out st @ [''Error fetching realtime data: '' @ msg]\<rparr>))"
proof (intro conjI allI impI)
  obtain r st' where d: "download_historical_data x ticker start end st = (r, st')"
    by (cases "download_historical_data x ticker start end st")
  from download_historical_data_frame(1) [OF d] d
  show "\<exists>nd st'. download_historical_data x ticker start end st = (Inr nd, st')" by auto
next
  obtain r st' where g: "get_realtime_data x self symbol market period st = (r, st')"
    by (cases "get_realtime_data x self symbol market period st")
  from get_realtime_data_frame [OF g] g
  show "\<exists>df st'. get_realtime_data x self symbol market period st = (Inr df, st')" by auto
next
  fix msg w
  assume "yf_download x ticker start end (world st) = (Inl (PyException msg), w)"
  then show "download_historical_data x ticker start end st =
          (Inr None,
           st\<lparr>requests := requests st @ [Download ticker start end], world := w,
              out := out st @ [''Error downloading '' @ ticker @ '': '' @ msg]\<rparr>)"
    by (simp add: download_historical_data_def print_def)
next
  fix msg w
  assume "ticker_history x (full_symbol symbol market) period (world st) = (Inl (PyException msg), w)"
  then show "get_realtime_data x self symbol market period st =
          (Inr None,
           st\<lparr>requests := requests st @ [History (full_symbol symbol market) period], world := w,
              out := out st @ [''Error fetching realtime data: '' @ msg]\<rparr>)"
    by (simp add: get_realtime_data_def print_def)
qed

text \<open>
  C6, witness: the provider times out.
\<close>

theorem fetch_errors_caught_witness:
  "yf_download demo_ext ''0700.HK'' None ''2024-01-08''
       (world (demo_state {''stock_data''} [] [Inl (PyException ''timed out'')]))
     = (Inl (PyException ''timed out''), [])
   \<and> download_historical_data demo_ext ''0700.HK'' None ''2024-01-08''
       (demo_state {''stock_data''} [] [Inl (PyException ''timed out'')])
     = (Inr None,
        (demo_state {''stock_data''} [] [])
          \<lparr>requests := [Download ''0700.HK'' None ''2024-01-08''],
            out := [''Error downloading 0700.HK: timed out'']\<rparr>)
   \<and> get_realtime_data demo_ext demo_self ''0700'' ''HK'' ''1d''
       (demo_state {''stock_data''} [] [Inl (PyException ''timed out'')])
     = (Inr None,
        (demo_state {''stock_data''} [] [])
          \<lparr>requests := [History ''0700.HK'' ''1d''],
            out := [''Error fetching realtime data: timed out'']\<rparr>)"
proof -
  have h1: "yf_download demo_ext ''0700.HK'' None ''2024-01-08''
       (world (demo_state {''stock_data''} [] [Inl (PyException ''timed out'')]))
     = (Inl (PyException ''timed out''), [])"
    by (simp add: demo_defs)
  have h2: "ticker_history demo_ext (full_symbol ''0700'' ''HK'') ''1d''
       (world (demo_state {''stock_data''} [] [Inl (PyException ''timed out'')]))
     = (Inl (PyException ''timed out''), [])"
    by (simp add: demo_defs)
  from fetch_errors_caught [where x = demo_ext and ticker = "''0700.HK''" and start = None
      and ?end = "''2024-01-08''" and self = demo_self and symbol = "''0700''" and market = "''HK''"
      and period = "''1d''" and st = "demo_state {''stock_data''} [] [Inl (PyException ''timed out'')]"]
  have "download_historical_data demo_ext ''0700.HK'' None ''2024-01-08''
       (demo_state {''stock_data''} [] [Inl (PyException ''timed out'')])
     = (Inr None,
        (demo_state {''stock_data''} [] [Inl (PyException ''timed out'')])
          \<lparr>requests := requests (demo_state {''stock_data''} [] [Inl (PyException ''timed out'')])
               @ [Download ''0700.HK'' None ''2024-01-08''],
            world := [],
            out := out (demo_state {''stock_data''} [] [Inl (PyException ''timed out'')])
               @ [''Error downloading '' @ ''0700.HK'' @ '': '' @ ''timed out'']\<rparr>)"
    and "get_realtime_data demo_ext demo_self ''0700'' ''HK'' ''1d''
       (demo_state {''stock_data''} [] [Inl (PyException ''timed out'')])
     = (Inr None,
        (demo_state {''stock_data''} [] [Inl (PyException ''timed out'')])
          \<lparr>requests := requests (demo_state {''stock_data''} [] [Inl (PyException ''timed out'')])
               @ [History (full_symbol ''0700'' ''HK'') ''1d''],
            world := [],
            out := out (demo_state {''stock_data''} [] [Inl (PyException ''timed out'')])
               @ [''Error fetching realtime data: '' @ ''timed out'']\<rparr>)"
    using h1 h2 by blast+
  then show ?thesis using h1
    by (simp add: demo_state_def full_symbol_def)
qed

subsection \<open>C7: the start of the fetch\<close>

text \<open>
  C7.  When the path is resolved and is not a directory: if a file with at least one row
  is stored there and \<^verbatim>\<open>pd.to_datetime\<close> reads the date \<open>d\<close> from the label of its last
  row, as \<^verbatim>\<open>read_csv\<close> holds that label, the update asks the provider for the ticker
  from \<open>d\<close> plus one day up to today; if no file is stored there, it asks with no start,
  and when the provider then returns a frame that is not empty, the file created holds
  one row for each fetched date, in the order of the last rows of the dates, each row
  being the last fetched row of its date with its columns renamed.
\<close>

theorem update_start_date:
  assumes p: "get_symbol_path self symbol market st = (Inr file_path, st1)"
    and nodir: "file_path \<notin> dirs st1"
  shows "(\<forall>table d. files st file_path = Some table \<and> table \<noteq> []
              \<and> pd_to_datetime x (index_label x (map fst table) (fst (last table))) = Inr d \<longrightarrow>
            requests (snd (update_historical_data x self symbol market st)) =
              requests st @ [Download (full_symbol symbol market) (Some (d + timedelta_days 1))
                               (today x (world st))])
       \<and> (files st file_path = None \<longrightarrow>
            requests (snd (update_historical_data x self symbol market st)) =
              requests st @ [Download (full_symbol symbol market) None (today x (world st))]
            \<and> (\<forall>df w. yf_download x (full_symbol symbol market) None (today x (world st)) (world st)
                         = (Inr df, w) \<and> \<not> df_empty df \<longrightarrow>
                 (\<exists>kept.
                    files (snd (update_historical_data x self symbol market st)) file_path =
                      Some (map (\<lambda>(t, r). (csv_datetime_index x (map fst kept) t, r)) kept)
                    \<and> map fst kept = remdups (map fst df)
                    \<and> distinct (map fst kept)
                    \<and> (\<forall>(t, r) \<in> set kept. map_of (rev (rename_columns df)) t = Some r))))"
proof (intro conjI allI impI)
  fix table d
  assume a: "files st file_path = Some table \<and> table \<noteq> []
      \<and> pd_to_datetime x (index_label x (map fst table) (fst (last table))) = Inr d"
  with get_symbol_path_frame(1) [OF p] have "files st1 file_path = Some table" by simp
  from load_existing_file [OF this nodir, of x d] a
  have "load_existing x st1 file_path =
          Inr (Some (map (\<lambda>(s, r). (index_label x (map fst table) s, r)) table),
               Some (d + timedelta_days 1))"
    by simp
  from update_requests [OF p this]
  show "requests (snd (update_historical_data x self symbol market st)) =
          requests st @ [Download (full_symbol symbol market) (Some (d + timedelta_days 1))
                           (today x (world st))]" .
next
  assume "files st file_path = None"
  with get_symbol_path_frame(1) [OF p] have "files st1 file_path = None" by simp
  from update_requests [OF p load_existing_no_file [OF this nodir]]
  show "requests (snd (update_historical_data x self symbol market st)) =
          requests st @ [Download (full_symbol symbol market) None (today x (world st))]" .
next
  fix df w
  assume n: "files st file_path = None"
  assume y: "yf_download x (full_symbol symbol market) None (today x (world st)) (world st) = (Inr df, w)
      \<and> \<not> df_empty df"
  let ?F = "rename_columns df"
  let ?nd = "rename_columns (map (\<lambda>(t, r). (Ts t, r)) df)"
  let ?st2 = "st1\<lparr>requests := requests st1 @ [Download (full_symbol symbol market) None (today x (world st1))],
                  world := w\<rparr>"
  let ?kept = "drop_duplicated ?F"
  from n get_symbol_path_frame(1) [OF p] have n1: "files st1 file_path = None" by simp
  have l: "load_existing x st1 file_path = Inr (None, None)"
    using load_existing_no_file [OF n1 nodir] .
  have d: "download_historical_data x (full_symbol symbol market) None (today x (world st1)) st1 =
             (Inr (Some ?nd), ?st2)"
    using y get_symbol_path_frame(5) [OF p] by (simp add: download_historical_data_def)
  have u: "update_historical_data x self symbol market st =
             merge_and_save x symbol file_path None (Some ?nd) ?st2"
    using p l d by (simp add: update_historical_data_def fetch_new_def)
  have ne: "\<not> df_empty ?nd" using y by (simp add: df_empty_fetched)
  have nd2: "file_path \<notin> dirs ?st2" using nodir by simp
  have ex2: "os_path_exists ?st2 file_path \<longleftrightarrow> (None :: ('n label, 'a) frame option) \<noteq> None"
    using n1 nodir by (simp add: os_path_exists_def domIff)
  have dd: "drop_duplicated ?nd = map (\<lambda>(t, r). (Ts t, r)) ?kept"
    by (simp add: rename_columns_Ts drop_duplicated_Ts)
  have tbl: "map (\<lambda>(l, r). (csv_label x (map fst (drop_duplicated ?nd)) l, r)) (drop_duplicated ?nd) =
          map (\<lambda>(t, r). (csv_datetime_index x (map fst ?kept) t, r)) ?kept"
    by (simp only: dd csv_label_Ts)
  have "files (snd (update_historical_data x self symbol market st)) file_path =
          Some (map (\<lambda>(l, r). (csv_label x (map fst (drop_duplicated ?nd)) l, r)) (drop_duplicated ?nd))"
    unfolding u merge_and_save_writes [OF ne nd2 ex2] by simp
  then have w: "files (snd (update_historical_data x self symbol market st)) file_path =
          Some (map (\<lambda>(t, r). (csv_datetime_index x (map fst ?kept) t, r)) ?kept)"
    by (simp only: tbl)
  have k1: "map fst ?kept = remdups (map fst df)"
    by (simp add: labels_drop_duplicated)
  have k2: "distinct (map fst ?kept)"
    by (simp add: labels_drop_duplicated)
  have k3: "\<forall>(t, r) \<in> set ?kept. map_of (rev ?F) t = Some r"
    using drop_duplicated_last_row [of _ _ ?F] by blast
  from w k1 k2 k3
  show "\<exists>kept.
          files (snd (update_historical_data x self symbol market st)) file_path =
            Some (map (\<lambda>(t, r). (csv_datetime_index x (map fst kept) t, r)) kept)
          \<and> map fst kept = remdups (map fst df)
          \<and> distinct (map fst kept)
          \<and> (\<forall>(t, r) \<in> set kept. map_of (rev (rename_columns df)) t = Some r)"
    by blast
qed

text \<open>
  C7, witness: a file whose last row is 2024-01-02; a file whose only label, 20240101, is
  read as a number and converted as nanoseconds since the epoch; and a first run whose
  fetch holds 2024-01-01 twice.
\<close>

theorem update_start_date_witness:
  "get_symbol_path demo_self ''AAPL'' ''US''
      (demo_state {''stock_data''}
         [(''stock_data/US/AAPL.csv'',
           [(''2024-01-01'', [(''close'', 10)]), (''2024-01-02'', [(''close'', 11)])])] [])
    = (Inr ''stock_data/US/AAPL.csv'',
       demo_state {''stock_data/US'', ''stock_data''}
         [(''stock_data/US/AAPL.csv'',
           [(''2024-01-01'', [(''close'', 10)]), (''2024-01-02'', [(''close'', 11)])])] [])
   \<and> pd_to_datetime demo_ext (index_label demo_ext [''2024-01-01'', ''2024-01-02''] ''2024-01-02'')
    = Inr 1704153600
   \<and> requests (snd (update_historical_data demo_ext demo_self ''AAPL'' ''US''
      (demo_state {''stock_data''}
         [(''stock_data/US/AAPL.csv'',
           [(''2024-01-01'', [(''close'', 10)]), (''2024-01-02'', [(''close'', 11)])])] [])))
    = [Download ''AAPL'' (Some 1704240000) ''2024-01-08'']
   \<and> pd_to_datetime demo_ext (index_label demo_ext [''20240101''] ''20240101'') = Inr 0
   \<and> requests (snd (update_historical_data demo_ext demo_self ''AAPL'' ''US''
      (demo_state {''stock_data''}
         [(''stock_data/US/AAPL.csv'', [(''20240101'', [(''close'', 10)])])] [])))
    = [Download ''AAPL'' (Some 86400) ''2024-01-08'']
   \<and> get_symbol_path demo_self ''0700'' ''HK''
      (demo_state {''stock_data''} []
         [Inr [(1704067200, [(''Close'', 30)]), (1704067200, [(''Close'', 31)]),
               (1704153600, [(''Close'', 32)])]])
    = (Inr ''stock_data/HK/0700.csv'',
       demo_state {''stock_data/HK'', ''stock_data''} []
         [Inr [(1704067200, [(''Close'', 30)]), (1704067200, [(''Close'', 31)]),
               (1704153600, [(''Close'', 32)])]])
   \<and> requests (snd (update_historical_data demo_ext demo_self ''0700'' ''HK''
      (demo_state {''stock_data''} []
         [Inr [(1704067200, [(''Close'', 30)]), (1704067200, [(''Close'', 31)]),
               (1704153600, [(''Close'', 32)])]])))
    = [Download ''0700.HK'' None ''2024-01-08'']
   \<and> files (snd (update_historical_data demo_ext demo_self ''0700'' ''HK''
      (demo_state {''stock_data''} []
         [Inr [(1704067200, [(''Close'', 30)]), (1704067200, [(''Close'', 31)]),
               (1704153600, [(''Close'', 32)])]])))
      ''stock_data/HK/0700.csv''
    = Some [(''2024-01-01'', [(''close'', 31)]), (''2024-01-02'', [(''close'', 32)])]"
proof -
  let ?table = "[(''2024-01-01'', [(''close'', 10 :: int)]), (''2024-01-02'', [(''close'', 11)])]"
  let ?A = "demo_state {''stock_data''} [(''stock_data/US/AAPL.csv'', ?table)] []"
  let ?A1 = "demo_state {''stock_data/US'', ''stock_data''} [(''stock_data/US/AAPL.csv'', ?table)] []"
  let ?num = "[(''20240101'', [(''close'', 10 :: int)])]"
  let ?N = "demo_state {''stock_data''} [(''stock_data/US/AAPL.csv'', ?num)] []"
  let ?N1 = "demo_state {''stock_data/US'', ''stock_data''} [(''stock_data/US/AAPL.csv'', ?num)] []"
  let ?df = "[(1704067200, [(''Close'', 30 :: int)]), (1704067200, [(''Close'', 31)]),
              (1704153600, [(''Close'', 32)])]"
  let ?B = "demo_state {''stock_data''} [] [Inr ?df]"
  let ?B1 = "demo_state {''stock_data/HK'', ''stock_data''} [] [Inr ?df]"
  have a1: "get_symbol_path demo_self ''AAPL'' ''US'' ?A = (Inr ''stock_data/US/AAPL.csv'', ?A1)"
    by (simp add: model_defs demo_defs)
  have a2: "''stock_data/US/AAPL.csv'' \<notin> dirs ?A1"
    by (simp add: demo_defs)
  have a4: "pd_to_datetime demo_ext (index_label demo_ext [''2024-01-01'', ''2024-01-02''] ''2024-01-02'')
      = Inr 1704153600"
    by (simp add: pd_to_datetime_def index_label_def demo_defs)
  have a3: "files ?A ''stock_data/US/AAPL.csv'' = Some ?table \<and> ?table \<noteq> []
      \<and> pd_to_datetime demo_ext (index_label demo_ext (map fst ?table) (fst (last ?table)))
          = Inr 1704153600"
    using a4 by (simp add: demo_state_def)
  from update_start_date [OF a1 a2, of demo_ext] a3
  have a: "requests (snd (update_historical_data demo_ext demo_self ''AAPL'' ''US'' ?A)) =
      requests ?A @ [Download (full_symbol ''AAPL'' ''US'') (Some (1704153600 + timedelta_days 1))
                       (today demo_ext (world ?A))]"
    by blast
  have n1: "get_symbol_path demo_self ''AAPL'' ''US'' ?N = (Inr ''stock_data/US/AAPL.csv'', ?N1)"
    by (simp add: model_defs demo_defs)
  have n2: "''stock_data/US/AAPL.csv'' \<notin> dirs ?N1"
    by (simp add: demo_defs)
  have n4: "pd_to_datetime demo_ext (index_label demo_ext [''20240101''] ''20240101'') = Inr 0"
    by (simp add: pd_to_datetime_def index_label_def demo_defs)
  have n3: "files ?N ''stock_data/US/AAPL.csv'' = Some ?num \<and> ?num \<noteq> []
      \<and> pd_to_datetime demo_ext (index_label demo_ext (map fst ?num) (fst (last ?num))) = Inr 0"
    using n4 by (simp add: demo_state_def)
  from update_start_date [OF n1 n2, of demo_ext] n3
  have n: "requests (snd (update_historical_data demo_ext demo_self ''AAPL'' ''US'' ?N)) =
      requests ?N @ [Download (full_symbol ''AAPL'' ''US'') (Some (0 + timedelta_days 1))
                       (today demo_ext (world ?N))]"
    by blast
  have b1: "get_symbol_path demo_self ''0700'' ''HK'' ?B = (Inr ''stock_data/HK/0700.csv'', ?B1)"
    by (simp add: model_defs demo_defs)
  have b2: "''stock_data/HK/0700.csv'' \<notin> dirs ?B1"
    by (simp add: demo_defs)
  have b3: "files ?B ''stock_data/HK/0700.csv'' = None"
    by (simp add: demo_defs)
  have b4: "yf_download demo_ext (full_symbol ''0700'' ''HK'') None (today demo_ext (world ?B)) (world ?B)
      = (Inr ?df, []) \<and> \<not> df_empty ?df"
    by (simp add: demo_defs df_empty_def)
  from update_start_date [OF b1 b2, of demo_ext] b3 b4
  have b: "requests (snd (update_historical_data demo_ext demo_self ''0700'' ''HK'' ?B)) =
      requests ?B @ [Download (full_symbol ''0700'' ''HK'') None (today demo_ext (world ?B))]"
    and "\<exists>kept.
          files (snd (update_historical_data demo_ext demo_self ''0700'' ''HK'' ?B)) ''stock_data/HK/0700.csv'' =
            Some (map (\<lambda>(t, r). (csv_datetime_index demo_ext (map fst kept) t, r)) kept)
          \<and> map fst kept = remdups (map fst ?df)
          \<and> distinct (map fst kept)
          \<and> (\<forall>(t, r) \<in> set kept. map_of (rev (rename_columns ?df)) t = Some r)"
    by blast+
  then obtain kept where
    k0: "files (snd (update_historical_data demo_ext demo_self ''0700'' ''HK'' ?B)) ''stock_data/HK/0700.csv'' =
            Some (map (\<lambda>(t, r). (csv_datetime_index demo_ext (map fst kept) t, r)) kept)"
    and k1: "map fst kept = remdups (map fst ?df)"
    and k3: "\<forall>(t, r) \<in> set kept. map_of (rev (rename_columns ?df)) t = Some r"
    by blast
  from k1 have "map fst kept = [1704067200, 1704153600]" by simp
  then obtain r1 r2 where kept: "kept = [(1704067200, r1), (1704153600, r2)]"
    by (cases kept; cases "tl kept"; cases "tl (tl kept)") auto
  from k3 kept have "r1 = [(''close'', 31)]" and "r2 = [(''close'', 32)]"
    by (simp_all add: rename_columns_def column_names_def)
  with k0 kept have c': "files (snd (update_historical_data demo_ext demo_self ''0700'' ''HK'' ?B)) ''stock_data/HK/0700.csv''
      = Some [(''2024-01-01'', [(''close'', 31)]), (''2024-01-02'', [(''close'', 32)])]"
    by (simp add: demo_defs)
  have a': "requests (snd (update_historical_data demo_ext demo_self ''AAPL'' ''US'' ?A))
      = [Download ''AAPL'' (Some 1704240000) ''2024-01-08'']"
    unfolding a by (simp add: demo_defs full_symbol_def timedelta_days_def)
  have n': "requests (snd (update_historical_data demo_ext demo_self ''AAPL'' ''US'' ?N))
      = [Download ''AAPL'' (Some 86400) ''2024-01-08'']"
    unfolding n by (simp add: demo_defs full_symbol_def timedelta_days_def)
  have b': "requests (snd (update_historical_data demo_ext demo_self ''0700'' ''HK'' ?B))
      = [Download ''0700.HK'' None ''2024-01-08'']"
    unfolding b by (simp add: demo_defs full_symbol_def)
  from a1 a4 a' n4 n' b1 b' c' show ?thesis by simp
qed

subsection \<open>C8: one failed fetch in a batch\<close>

text \<open>
  C8.  The batch runs the updates one after another in the order of the input.  When the
  fetch for one pair fails or brings nothing, after the pairs before it were processed,
  that pair prints its lines and changes no file, and the pairs after it are processed
  from there as a batch of their own.
\<close>

theorem batch_update_isolates_failed_fetch:
  assumes "length ss1 = length ms1"
    and "batch_update x self ss1 ms1 st = (Inr (), st1)"
    and "fetch_new x self symbol market st1 = (Inr (file_path, existing_df, new_data), st2)"
    and "new_data = None \<or> (\<exists>df. new_data = Some df \<and> df_empty df)"
  shows "batch_update x self (ss1 @ symbol # ss2) (ms1 @ market # ms2) st =
           batch_update x self ss2 ms2 (print (''No new data for '' @ symbol) st2)
         \<and> files st2 = files st1 \<and> writes st2 = writes st1"
proof -
  have u: "update_historical_data x self symbol market st1 =
             (Inr (), print (''No new data for '' @ symbol) st2)"
    using assms(3) merge_and_save_no_data [OF assms(4)]
    by (simp add: update_historical_data_def)
  have z: "zip (ss1 @ symbol # ss2) (ms1 @ market # ms2) =
             zip ss1 ms1 @ (symbol, market) # zip ss2 ms2"
    using assms(1) by simp
  have "batch_update x self (ss1 @ symbol # ss2) (ms1 @ market # ms2) st =
          batch_update x self ss2 ms2 (print (''No new data for '' @ symbol) st2)"
    using assms(2) u by (simp add: batch_update_def z batch_loop_append)
  with fetch_new_frame [OF assms(3)] show ?thesis by simp
qed

text \<open>
  C8, witness: three pairs, the provider times out for the second one; the files of the
  first and the third are written.
\<close>

theorem batch_update_isolates_failed_fetch_witness:
  "batch_update demo_ext demo_self [''MSFT''] [''US'']
     (demo_state {''stock_data''} []
        [Inr [(1704067200, [(''Close'', 10)])], Inl (PyException ''timed out''),
         Inr [(1704067200, [(''Close'', 30)])]])
   = (Inr (),
      \<lparr>dirs = {''stock_data/US'', ''stock_data''},
       files = [''stock_data/US/MSFT.csv'' \<mapsto> [(''2024-01-01'', [(''close'', 10)])]],
       out = [''Updated MSFT with 1 new records''],
       requests = [Download ''MSFT'' None ''2024-01-08''],
       writes = [''stock_data/US/MSFT.csv''],
       world = [Inl (PyException ''timed out''), Inr [(1704067200, [(''Close'', 30)])]]\<rparr>)
   \<and> fetch_new demo_ext demo_self ''AAPL'' ''US''
      \<lparr>dirs = {''stock_data/US'', ''stock_data''},
       files = [''stock_data/US/MSFT.csv'' \<mapsto> [(''2024-01-01'', [(''close'', 10)])]],
       out = [''Updated MSFT with 1 new records''],
       requests = [Download ''MSFT'' None ''2024-01-08''],
       writes = [''stock_data/US/MSFT.csv''],
       world = [Inl (PyException ''timed out''), Inr [(1704067200, [(''Close'', 30)])]]\<rparr>
   = (Inr (''stock_data/US/AAPL.csv'', None, None),
      \<lparr>dirs = {''stock_data/US'', ''stock_data''},
       files = [''stock_data/US/MSFT.csv'' \<mapsto> [(''2024-01-01'', [(''close'', 10)])]],
       out = [''Updated MSFT with 1 new records'', ''Error downloading AAPL: timed out''],
       requests = [Download ''MSFT'' None ''2024-01-08'', Download ''AAPL'' None ''2024-01-08''],
       writes = [''stock_data/US/MSFT.csv''],
       world = [Inr [(1704067200, [(''Close'', 30)])]]\<rparr>)
   \<and> batch_update demo_ext demo_self [''MSFT'', ''AAPL'', ''0700''] [''US'', ''US'', ''HK'']
     (demo_state {''stock_data''} []
        [Inr [(1704067200, [(''Close'', 10)])], Inl (PyException ''timed out''),
         Inr [(1704067200, [(''Close'', 30)])]])
   = (Inr (),
      \<lparr>dirs = {''stock_data/HK'', ''stock_data/US'', ''stock_data''},
       files = [''stock_data/US/MSFT.csv'' \<mapsto> [(''2024-01-01'', [(''close'', 10)])],
                ''stock_data/HK/0700.csv'' \<mapsto> [(''2024-01-01'', [(''close'', 30)])]],
       out = [''Updated MSFT with 1 new records'', ''Error downloading AAPL: timed out'',
              ''No new data for AAPL'', ''Updated 0700 with 1 new records''],
       requests = [Download ''MSFT'' None ''2024-01-08'', Download ''AAPL'' None ''2024-01-08'',
                   Download ''0700.HK'' None ''2024-01-08''],
       writes = [''stock_data/US/MSFT.csv'', ''stock_data/HK/0700.csv''],
       world = []\<rparr>)"
proof -
  have h0: "length [''MSFT''] = length [''US'']" by simp
  have h1: "batch_update demo_ext demo_self [''MSFT''] [''US'']
     (demo_state {''stock_data''} []
        [Inr [(1704067200, [(''Close'', 10)])], Inl (PyException ''timed out''),
         Inr [(1704067200, [(''Close'', 30)])]])
   = (Inr (),
      \<lparr>dirs = {''stock_data/US'', ''stock_data''},
       files = [''stock_data/US/MSFT.csv'' \<mapsto> [(''2024-01-01'', [(''close'', 10)])]],
       out = [''Updated MSFT with 1 new records''],
       requests = [Download ''MSFT'' None ''2024-01-08''],
       writes = [''stock_data/US/MSFT.csv''],
       world = [Inl (PyException ''timed out''), Inr [(1704067200, [(''Close'', 30)])]]\<rparr>)"
    by (simp add: model_defs demo_defs str_nat.simps)
  have h2: "fetch_new demo_ext demo_self ''AAPL'' ''US''
      \<lparr>dirs = {''stock_data/US'', ''stock_data''},
       files = [''stock_data/US/MSFT.csv'' \<mapsto> [(''2024-01-01'', [(''close'', 10)])]],
       out = [''Updated MSFT with 1 new records''],
       requests = [Download ''MSFT'' None ''2024-01-08''],
       writes = [''stock_data/US/MSFT.csv''],
       world = [Inl (PyException ''timed out''), Inr [(1704067200, [(''Close'', 30)])]]\<rparr>
   = (Inr (''stock_data/US/AAPL.csv'', None, None),
      \<lparr>dirs = {''stock_data/US'', ''stock_data''},
       files = [''stock_data/US/MSFT.csv'' \<mapsto> [(''2024-01-01'', [(''close'', 10)])]],
       out = [''Updated MSFT with 1 new records'', ''Error downloading AAPL: timed out''],
       requests = [Download ''MSFT'' None ''2024-01-08'', Download ''AAPL'' None ''2024-01-08''],
       writes = [''stock_data/US/MSFT.csv''],
       world = [Inr [(1704067200, [(''Close'', 30)])]]\<rparr>)"
    by (simp add: model_defs demo_defs)
  have h3: "(None :: (int label, int) frame option) = None
      \<or> (\<exists>df. (None :: (int label, int) frame option) = Some df \<and> df_empty df)"
    by simp
  have c: "batch_update demo_ext demo_self ([''MSFT''] @ ''AAPL'' # [''0700'']) ([''US''] @ ''US'' # [''HK''])
     (demo_state {''stock_data''} []
        [Inr [(1704067200, [(''Close'', 10)])], Inl (PyException ''timed out''),
         Inr [(1704067200, [(''Close'', 30)])]])
   = batch_update demo_ext demo_self [''0700''] [''HK'']
      (print (''No new data for '' @ ''AAPL'')
      \<lparr>dirs = {''stock_data/US'', ''stock_data''},
       files = [''stock_data/US/MSFT.csv'' \<mapsto> [(''2024-01-01'', [(''close'', 10)])]],
       out = [''Updated MSFT with 1 new records'', ''Error downloading AAPL: timed out''],
       requests = [Download ''MSFT'' None ''2024-01-08'', Download ''AAPL'' None ''2024-01-08''],
       writes = [''stock_data/US/MSFT.csv''],
       world = [Inr [(1704067200, [(''Close'', 30)])]]\<rparr>)"
    using batch_update_isolates_failed_fetch [OF h0 h1 h2 h3, of "[''0700'']" "[''HK'']"] by blast
  have "batch_update demo_ext demo_self [''0700''] [''HK'']
      (print (''No new data for '' @ ''AAPL'')
      \<lparr>dirs = {''stock_data/US'', ''stock_data''},
       files = [''stock_data/US/MSFT.csv'' \<mapsto> [(''2024-01-01'', [(''close'', 10)])]],
       out = [''Updated MSFT with 1 new records'', ''Error downloading AAPL: timed out''],
       requests = [Download ''MSFT'' None ''2024-01-08'', Download ''AAPL'' None ''2024-01-08''],
       writes = [''stock_data/US/MSFT.csv''],
       world = [Inr [(1704067200, [(''Close'', 30)])]]\<rparr>)
   = (Inr (),
      \<lparr>dirs = {''stock_data/HK'', ''stock_data/US'', ''stock_data''},
       files = [''stock_data/US/MSFT.csv'' \<mapsto> [(''2024-01-01'', [(''close'', 10)])],
                ''stock_data/HK/0700.csv'' \<mapsto> [(''2024-01-01'', [(''close'', 30)])]],
       out = [''Updated MSFT with 1 new records'', ''Error downloading AAPL: timed out'',
              ''No new data for AAPL'', ''Updated 0700 with 1 new records''],
       requests = [Download ''MSFT'' None ''2024-01-08'', Download ''AAPL'' None ''2024-01-08'',
                   Download ''0700.HK'' None ''2024-01-08''],
       writes = [''stock_data/US/MSFT.csv'', ''stock_data/HK/0700.csv''],
       world = []\<rparr>)"
    by (simp add: model_defs demo_defs str_nat.simps)
  with c h1 h2 show ?thesis by simp
qed

subsection \<open>C9: reading the local file\<close>

text \<open>
  C9, as amended.  \<^verbatim>\<open>get_local_data\<close> changes no file and writes none.  Whenever the
  path is resolved the directory of the market is a directory afterwards and no directory
  is lost: it is created when it was not there, and the directories are left as they are
  when it was.  When the
  path is not a directory and a file is stored there, the result hangs on whether
  \<^verbatim>\<open>pd.to_datetime\<close> reads the index as a whole: if it does, the rows are returned
  under those dates; if it does not, \<^verbatim>\<open>ValueError\<close> escapes.  When nothing is at the
  path, it prints "No local data found for <symbol> in <market>" and returns nothing.
\<close>

theorem get_local_data_effects:
  "files (snd (get_local_data x self symbol market st)) = files st
   \<and> writes (snd (get_local_data x self symbol market st)) = writes st
   \<and> (os_path_join (root_dir self) market \<in> dirs st \<longrightarrow>
        dirs (snd (get_local_data x self symbol market st)) = dirs st)
   \<and> (\<forall>file_path st1.
        get_symbol_path self symbol market st = (Inr file_path, st1) \<longrightarrow>
        os_path_join (root_dir self) market \<in> dirs (snd (get_local_data x self symbol market st))
        \<and> dirs st \<subseteq> dirs (snd (get_local_data x self symbol market st)))
   \<and> (\<forall>file_path st1 table ts.
        get_symbol_path self symbol market st = (Inr file_path, st1) \<and> file_path \<notin> dirs st1
        \<and> files st file_path = Some table
        \<and> those (map (to_datetime_index x (map fst table)) (map fst table)) = Some ts \<longrightarrow>
        get_local_data x self symbol market st = (Inr (Some (zip ts (map snd table))), st1))
   \<and> (\<forall>file_path st1 table.
        get_symbol_path self symbol market st = (Inr file_path, st1) \<and> file_path \<notin> dirs st1
        \<and> files st file_path = Some table
        \<and> those (map (to_datetime_index x (map fst table)) (map fst table)) = None \<longrightarrow>
        get_local_data x self symbol market st = (Inl ValueError, st1))
   \<and> (\<forall>file_path st1.
        get_symbol_path self symbol market st = (Inr file_path, st1)
        \<and> \<not> os_path_exists st1 file_path \<longrightarrow>
        get_local_data x self symbol market st =
          (Inr None, print (''No local data found for '' @ symbol @ '' in '' @ market) st1))"
proof (intro conjI allI impI)
  show "files (snd (get_local_data x self symbol market st)) = files st"
    and "writes (snd (get_local_data x self symbol market st)) = writes st"
    using get_local_data_frame [of x self symbol market st] by simp_all
next
  assume "os_path_join (root_dir self) market \<in> dirs st"
  then show "dirs (snd (get_local_data x self symbol market st)) = dirs st"
    by (rule get_local_data_dirs)
next
  fix file_path st1
  assume p: "get_symbol_path self symbol market st = (Inr file_path, st1)"
  have "dirs (snd (get_local_data x self symbol market st)) = dirs st1"
    using p by (auto simp: get_local_data_def split: sum.splits)
  with get_symbol_path_Inr(2) [OF p]
  show "os_path_join (root_dir self) market \<in> dirs (snd (get_local_data x self symbol market st))"
    and "dirs st \<subseteq> dirs (snd (get_local_data x self symbol market st))"
    by auto
next
  fix file_path st1 table ts
  assume a: "get_symbol_path self symbol market st = (Inr file_path, st1) \<and> file_path \<notin> dirs st1
        \<and> files st file_path = Some table
        \<and> those (map (to_datetime_index x (map fst table)) (map fst table)) = Some ts"
  then have p: "get_symbol_path self symbol market st = (Inr file_path, st1)" by simp
  from a get_symbol_path_frame(1) [OF p] have "files st1 file_path = Some table" by simp
  with a show "get_local_data x self symbol market st = (Inr (Some (zip ts (map snd table))), st1)"
    by (simp add: get_local_data_def os_path_exists_def read_csv_dates_def read_table_def domI)
next
  fix file_path st1 table
  assume a: "get_symbol_path self symbol market st = (Inr file_path, st1) \<and> file_path \<notin> dirs st1
        \<and> files st file_path = Some table
        \<and> those (map (to_datetime_index x (map fst table)) (map fst table)) = None"
  then have p: "get_symbol_path self symbol market st = (Inr file_path, st1)" by simp
  from a get_symbol_path_frame(1) [OF p] have "files st1 file_path = Some table" by simp
  with a show "get_local_data x self symbol market st = (Inl ValueError, st1)"
    by (simp add: get_local_data_def os_path_exists_def read_csv_dates_def read_table_def domI)
next
  fix file_path st1
  assume "get_symbol_path self symbol market st = (Inr file_path, st1)
        \<and> \<not> os_path_exists st1 file_path"
  then show "get_local_data x self symbol market st =
          (Inr None, print (''No local data found for '' @ symbol @ '' in '' @ market) st1)"
    by (simp add: get_local_data_def)
qed

text \<open>
  C9, witness: the directory of the market and a file of two days, both written as the
  date alone, are there.
\<close>

theorem get_local_data_effects_witness:
  "get_symbol_path demo_self ''AAPL'' ''US''
      (demo_state {''stock_data/US'', ''stock_data''}
         [(''stock_data/US/AAPL.csv'',
           [(''2024-01-01'', [(''close'', 10)]), (''2024-01-02'', [(''close'', 11)])])] [])
    = (Inr ''stock_data/US/AAPL.csv'',
       demo_state {''stock_data/US'', ''stock_data''}
         [(''stock_data/US/AAPL.csv'',
           [(''2024-01-01'', [(''close'', 10)]), (''2024-01-02'', [(''close'', 11)])])] [])
   \<and> get_local_data demo_ext demo_self ''AAPL'' ''US''
      (demo_state {''stock_data/US'', ''stock_data''}
         [(''stock_data/US/AAPL.csv'',
           [(''2024-01-01'', [(''close'', 10)]), (''2024-01-02'', [(''close'', 11)])])] [])
    = (Inr (Some [(1704067200, [(''close'', 10)]), (1704153600, [(''close'', 11)])]),
       demo_state {''stock_data/US'', ''stock_data''}
         [(''stock_data/US/AAPL.csv'',
           [(''2024-01-01'', [(''close'', 10)]), (''2024-01-02'', [(''close'', 11)])])] [])"
proof -
  let ?S = "demo_state {''stock_data/US'', ''stock_data''}
         [(''stock_data/US/AAPL.csv'',
           [(''2024-01-01'', [(''close'', 10)]), (''2024-01-02'', [(''close'', 11)])])] []"
  let ?table = "[(''2024-01-01'', [(''close'', 10 :: int)]), (''2024-01-02'', [(''close'', 11)])]"
  have h1: "get_symbol_path demo_self ''AAPL'' ''US'' ?S = (Inr ''stock_data/US/AAPL.csv'', ?S)"
    by (simp add: model_defs demo_defs insert_absorb)
  have h2: "''stock_data/US/AAPL.csv'' \<notin> dirs ?S"
    by (simp add: demo_defs)
  have h3: "files ?S ''stock_data/US/AAPL.csv'' = Some ?table"
    by (simp add: demo_defs)
  have h4: "those (map (to_datetime_index demo_ext (map fst ?table)) (map fst ?table))
      = Some [1704067200, 1704153600]"
    by (simp add: demo_defs)
  from get_local_data_effects [of demo_ext demo_self "''AAPL''" "''US''" ?S] h1 h2 h3 h4
  have "get_local_data demo_ext demo_self ''AAPL'' ''US'' ?S
      = (Inr (Some (zip [1704067200, 1704153600] (map snd ?table))), ?S)"
    by blast
  with h1 show ?thesis by simp
qed

text \<open>
  C9, counterexamples to the claim as stated.  With only the root directory there, the
  call returns nothing and leaves the directory of the market behind.  With the file
  that an update writes after a merge, two days as the date alone and two with the time
  of day, every label read alone is a date, and the call raises \<^verbatim>\<open>ValueError\<close>.
\<close>

theorem get_local_data_creates_directory_or_raises:
  "get_local_data demo_ext demo_self ''AAPL'' ''US'' (demo_state {''stock_data''} [] [])
     = (Inr None,
        (demo_state {''stock_data/US'', ''stock_data''} [] [])
          \<lparr>out := [''No local data found for AAPL in US'']\<rparr>)
   \<and> dirs (snd (get_local_data demo_ext demo_self ''AAPL'' ''US'' (demo_state {''stock_data''} [] [])))
     \<noteq> dirs (demo_state {''stock_data''} [] [])
   \<and> files (snd (update_historical_data demo_ext demo_self ''AAPL'' ''US''
        (demo_state {''stock_data/US'', ''stock_data''}
           [(''stock_data/US/AAPL.csv'',
             [(''2024-01-01'', [(''close'', 10)]), (''2024-01-02'', [(''close'', 11)])])]
           [Inr [(1704240000, [(''Close'', 12)]), (1704326400, [(''Close'', 13)])]])))
       ''stock_data/US/AAPL.csv''
     = Some [(''2024-01-01'', [(''close'', 10)]), (''2024-01-02'', [(''close'', 11)]),
             (''2024-01-03 00:00:00'', [(''close'', 12)]), (''2024-01-04 00:00:00'', [(''close'', 13)])]
   \<and> map (to_datetime demo_ext)
        [''2024-01-01'', ''2024-01-02'', ''2024-01-03 00:00:00'', ''2024-01-04 00:00:00'']
     = [Some 1704067200, Some 1704153600, Some 1704240000, Some 1704326400]
   \<and> get_local_data demo_ext demo_self ''AAPL'' ''US''
        (demo_state {''stock_data/US'', ''stock_data''}
           [(''stock_data/US/AAPL.csv'',
             [(''2024-01-01'', [(''close'', 10)]), (''2024-01-02'', [(''close'', 11)]),
              (''2024-01-03 00:00:00'', [(''close'', 12)]), (''2024-01-04 00:00:00'', [(''close'', 13)])])]
           [])
     = (Inl ValueError,
        demo_state {''stock_data/US'', ''stock_data''}
           [(''stock_data/US/AAPL.csv'',
             [(''2024-01-01'', [(''close'', 10)]), (''2024-01-02'', [(''close'', 11)]),
              (''2024-01-03 00:00:00'', [(''close'', 12)]), (''2024-01-04 00:00:00'', [(''close'', 13)])])]
           [])"
  by (simp add: model_defs demo_defs insert_absorb)

subsection \<open>C10: lists of unequal length\<close>

text \<open>
  C10.  Whatever the lengths of the two lists, the batch is the updates of the positions
  \<open>0\<close> up to \<open>min (length symbol_list) (length markets)\<close>, the \<open>i\<close>-th symbol with the
  \<open>i\<close>-th market, one after another in that order and ending at the first exception
  that escapes an update; what is left over of the longer list is never looked at, and
  the difference of the lengths is no error.
\<close>

theorem batch_update_unequal_lengths:
  "batch_update x self symbol_list markets st =
     fold (update_at x self symbol_list markets)
       [0..<min (length symbol_list) (length markets)] (Inr (), st)
   \<and> batch_update x self symbol_list markets st =
     batch_update x self (take (min (length symbol_list) (length markets)) symbol_list)
       (take (min (length symbol_list) (length markets)) markets) st"
proof
  show "batch_update x self symbol_list markets st =
     fold (update_at x self symbol_list markets)
       [0..<min (length symbol_list) (length markets)] (Inr (), st)"
    by (simp add: batch_update_def batch_loop_fold)
next
  have "zip (take (min (length symbol_list) (length markets)) symbol_list)
            (take (min (length symbol_list) (length markets)) markets) =
        take (min (length symbol_list) (length markets)) (zip symbol_list markets)"
    by (simp add: take_zip)
  also have "\<dots> = zip symbol_list markets" by simp
  finally show "batch_update x self symbol_list markets st =
     batch_update x self (take (min (length symbol_list) (length markets)) symbol_list)
       (take (min (length symbol_list) (length markets)) markets) st"
    by (simp add: batch_update_def)
qed

text \<open>
  C10, witness: three symbols and two markets; the first two symbols are updated in
  order, each with the market at its position, and the third is never asked for.
\<close>

theorem batch_update_unequal_lengths_witness:
  "batch_update demo_ext demo_self [''AAPL'', ''0700'', ''GOOG''] [''US'', ''HK'']
     (demo_state {''stock_data''} []
        [Inr [(1704067200, [(''Close'', 10)])], Inr [(1704067200, [(''Close'', 30)])],
         Inr [(1704067200, [(''Close'', 50)])]])
   = (Inr (),
      \<lparr>dirs = {''stock_data/HK'', ''stock_data/US'', ''stock_data''},
       files = [''stock_data/US/AAPL.csv'' \<mapsto> [(''2024-01-01'', [(''close'', 10)])],
                ''stock_data/HK/0700.csv'' \<mapsto> [(''2024-01-01'', [(''close'', 30)])]],
       out = [''Updated AAPL with 1 new records'', ''Updated 0700 with 1 new records''],
       requests = [Download ''AAPL'' None ''2024-01-08'', Download ''0700.HK'' None ''2024-01-08''],
       writes = [''stock_data/US/AAPL.csv'', ''stock_data/HK/0700.csv''],
       world = [Inr [(1704067200, [(''Close'', 50)])]]\<rparr>)"
proof -
  let ?S = "demo_state {''stock_data''} []
        [Inr [(1704067200, [(''Close'', 10 :: int)])], Inr [(1704067200, [(''Close'', 30)])],
         Inr [(1704067200, [(''Close'', 50)])]]"
  have two: "[0..<min (length [''AAPL'', ''0700'', ''GOOG'']) (length [''US'', ''HK''])] = [0, Suc 0]"
    by (simp add: upt_conv_Cons del: upt_Suc)
  from batch_update_unequal_lengths [of demo_ext demo_self "[''AAPL'', ''0700'', ''GOOG'']"
      "[''US'', ''HK'']" ?S]
  have "batch_update demo_ext demo_self [''AAPL'', ''0700'', ''GOOG''] [''US'', ''HK''] ?S =
     fold (update_at demo_ext demo_self [''AAPL'', ''0700'', ''GOOG''] [''US'', ''HK''])
       [0, Suc 0] (Inr (), ?S)"
    unfolding two by blast
  then show ?thesis
    by (simp add: update_at_def model_defs demo_defs str_nat.simps)
qed

end
